theory Spec2Isabelle
  imports Complex_Main "HOL-Library.AList" "HOL-Library.Product_Lexorder"
begin

section \<open>Data model (server.py, lines 28--114)\<close>

text \<open>
  The three string enumerations of the server. Every member is a non-empty string, so
  every member is truthy where the code tests \<^verbatim>\<open>if status:\<close> or
  \<^verbatim>\<open>priority or default\<close>.
\<close>

datatype Priority = LOW | MEDIUM | HIGH | URGENT

datatype TaskStatus = TODO | IN_PROGRESS | REVIEW | COMPLETED | CANCELLED

datatype TaskCategory = WORK | PERSONAL | LEARNING | HEALTH | FINANCE | OTHER

text \<open>
  A \<^verbatim>\<open>datetime\<close> of the Python library: \<open>wall\<close> is the number of microseconds
  from 0001-01-01T00:00:00 to the wall-clock fields of the value, \<open>utcoffset\<close> is
  \<open>None\<close> for a naive value (as \<^verbatim>\<open>datetime.now()\<close> returns) and the offset from
  UTC in microseconds for an aware one (as \<^verbatim>\<open>fromisoformat\<close> returns for a string
  that ends in an offset).
\<close>

record datetime =
  wall :: int
  utcoffset :: "int option"

text \<open>
  Python's \<^verbatim>\<open>float\<close> fields are modelled by exact real numbers: rounding of the
  binary representation is outside this model.
\<close>

record Project =
  id_project :: string
  name_project :: string
  description_project :: "string option"
  start_date :: "datetime option"
  end_date :: "datetime option"
  status_project :: string
  team_members :: "string list"
  budget :: "real option"
  created_at_project :: datetime

record TimeEntry =
  id_entry :: string
  task_id :: string
  start_time :: datetime
  end_time :: "datetime option"
  description_entry :: "string option"
  duration_minutes :: "int option"

record Task =
  id_task :: string
  title :: string
  description :: "string option"
  priority :: Priority
  status :: TaskStatus
  category :: TaskCategory
  due_date :: "datetime option"
  created_at :: datetime
  updated_at :: datetime
  estimated_hours :: "real option"
  actual_hours :: "real option"
  tags :: "string list"
  dependencies :: "string list"
  assignee :: "string option"
  project_id :: "string option"

record ConfigSchema =
  default_priority :: Priority
  default_category :: TaskCategory
  timezone :: string
  work_hours_per_day :: real
  focus_mode :: bool
  auto_track_time :: bool
  slack_webhook :: "string option"
  calendar_integration :: bool
  weekly_reports :: bool
  detailed_analytics :: bool

text \<open>
  The three module-level dictionaries. A Python \<^verbatim>\<open>dict\<close> keeps its keys in
  insertion order, and the timer functions stop at the first matching value, so each
  dictionary is an association list: \<open>map_of\<close> is the lookup, \<open>AList.update\<close> is
  \<^verbatim>\<open>d[k] = v\<close> (in place for a key that is present, at the end for a new one) and
  \<open>AList.delete\<close> is \<^verbatim>\<open>d.pop(k)\<close> for a key that is present.
\<close>

record state =
  tasks_storage :: "(string \<times> Task) list"
  projects_storage :: "(string \<times> Project) list"
  time_entries_storage :: "(string \<times> TimeEntry) list"

definition init_state :: state where
  "init_state = \<lparr>tasks_storage = [], projects_storage = [], time_entries_storage = []\<rparr>"

section \<open>Exceptions and responses\<close>

text \<open>
  The exceptions the modelled functions can raise, and the messages they return. A
  response carries the values the source interpolates into its message, before they are
  formatted; the rendering itself is not modelled. Every function returns the exception
  or the response together with the storage it leaves behind: a mutation made before an
  exception was raised stays in the storage.
\<close>

datatype py_error = KeyError | TypeError | OverflowError

datatype response =
    TaskNotFound string
  | InvalidDateFormat
  | TaskCreated Task
  | TaskUpdated Task
  | TaskDeleted string nat
  | NoTasksFound
  | TasksFound "Task list"
  | TaskDetails Task "TimeEntry list" int
  | TimerAlreadyRunning string datetime
  | TimerStarted string TimeEntry
  | TimeEntryNotFound string
  | NoActiveTimer string
  | SelectorMissing
  | TimerAlreadyStopped string
  | TimerStopped string int real
  | TimeLogged string int real

type_synonym outcome = "(py_error + response) \<times> state"

section \<open>Library operations the server calls\<close>

definition naive :: "int \<Rightarrow> datetime" where
  "naive n = \<lparr>wall = n, utcoffset = None\<rparr>"

text \<open>\<^verbatim>\<open>datetime.max\<close> is 9999-12-31T23:59:59.999999, a naive value; day 3652059 is its ordinal.\<close>

definition max_wall :: int where
  "max_wall = 3652059 * 86400000000 - 1"

definition datetime_max :: datetime where
  "datetime_max = naive max_wall"

text \<open>
  Ordering and subtraction of two datetimes raise \<^verbatim>\<open>TypeError\<close> when one is naive
  and the other aware; otherwise they work on the instants (aware values are compared
  in UTC).
\<close>

definition comparable :: "datetime \<Rightarrow> datetime \<Rightarrow> bool" where
  "comparable a b = ((utcoffset a = None) = (utcoffset b = None))"

definition instant :: "datetime \<Rightarrow> int" where
  "instant d = (case utcoffset d of None \<Rightarrow> wall d | Some off \<Rightarrow> wall d - off)"

definition datetime_sub :: "datetime \<Rightarrow> datetime \<Rightarrow> py_error + int" where
  "datetime_sub a b = (if comparable a b then Inr (instant a - instant b) else Inl TypeError)"

text \<open>
  A \<^verbatim>\<open>timedelta\<close> is its length in microseconds. \<^verbatim>\<open>timedelta(minutes=m)\<close> raises
  \<^verbatim>\<open>OverflowError\<close> when its normalised day count leaves \<open>\<plusminus>999999999\<close>, and
  adding a timedelta to a datetime raises it when the result leaves the years 1..9999.
\<close>

definition timedelta_minutes :: "int \<Rightarrow> py_error + int" where
  "timedelta_minutes m =
     (let us = m * 60000000; days = us div 86400000000
      in if - 999999999 \<le> days \<and> days \<le> 999999999 then Inr us else Inl OverflowError)"

definition datetime_add :: "datetime \<Rightarrow> int \<Rightarrow> py_error + datetime" where
  "datetime_add d us =
     (let w = wall d + us
      in if 0 \<le> w \<and> w \<le> max_wall then Inr (d\<lparr>wall := w\<rparr>) else Inl OverflowError)"

text \<open>
  Division of floats. \<^verbatim>\<open>int / int\<close> and \<^verbatim>\<open>float / float\<close> return the double
  nearest to the exact quotient, ties going to the even significand. \<open>float_div p q\<close>
  is that double for the quotient of the integers \<open>p\<close> and \<open>q > 0\<close>, written as a
  fraction \<open>(n, d)\<close> whose denominator is a power of two: the quotient is scaled by a
  power of two to a significand of 53 bits, rounded to an integer and scaled back. The
  quotients of this program are far from the largest and the smallest double, so the
  bounds of the exponent are not modelled.
\<close>

function bit_length :: "int \<Rightarrow> nat" where
  "bit_length n = (if n \<le> 0 then 0 else Suc (bit_length (n div 2)))"
  by auto
termination
  by (relation "measure nat") auto

declare bit_length.simps [simp del]

definition round_half_even :: "int \<Rightarrow> int \<Rightarrow> int" where
  "round_half_even u v =
     (let f = u div v; r = u mod v
      in if 2 * r < v then f else if v < 2 * r then f + 1 else if even f then f else f + 1)"

definition float_div :: "int \<Rightarrow> int \<Rightarrow> int \<times> int" where
  "float_div p q =
     (if p = 0 then (0, 1)
      else
        (let a = \<bar>p\<bar>;
             d = int (bit_length a) - int (bit_length q);
             e = (if q * 2 ^ nat d \<le> a * 2 ^ nat (- d) then d else d - 1);
             s = 52 - e;
             m = round_half_even (a * 2 ^ nat s) (q * 2 ^ nat (- s))
         in (sgn p * m * 2 ^ nat (- s), 2 ^ nat s)))"

text \<open>
  \<^verbatim>\<open>int(td.total_seconds() / 60)\<close>, the minutes of a timedelta of \<open>us\<close>
  microseconds: \<^verbatim>\<open>total_seconds()\<close> divides the microseconds by \<open>10\<^sup>6\<close>, the
  result is divided by 60, both as floats, and \<^verbatim>\<open>int\<close> truncates towards zero.
  \<^verbatim>\<open>td.total_seconds() / 3600\<close>, its hours, is the exact quotient here, as every
  value of a float field is.
\<close>

definition whole_minutes :: "int \<Rightarrow> int" where
  "whole_minutes us =
     (let total_seconds = float_div us 1000000;
          minutes = float_div (fst total_seconds) (snd total_seconds * 60)
      in sgn (fst minutes) * (\<bar>fst minutes\<bar> div snd minutes))"

text \<open>The value of a double that is written as a fraction.\<close>

definition fval :: "int \<times> int \<Rightarrow> real" where
  "fval f = real_of_int (fst f) / real_of_int (snd f)"

definition hours_of :: "int \<Rightarrow> real" where
  "hours_of us = real_of_int us / 3600000000"

text \<open>\<^verbatim>\<open>s.replace('Z', '+00:00')\<close>, applied to every date string before it is parsed.\<close>

definition replace_Z :: "string \<Rightarrow> string" where
  "replace_Z s = concat (map (\<lambda>c. if c = CHR ''Z'' then ''+00:00'' else [c]) s)"

text \<open>
  \<^verbatim>\<open>datetime.fromisoformat\<close> is a parameter of the functions that parse a date. The
  examples need it at concrete strings, so its behaviour is written out here on the
  strings \<^verbatim>\<open>YYYY-MM-DD\<close>, \<^verbatim>\<open>YYYY-MM-DDTHH:MM:SS\<close> and
  \<^verbatim>\<open>YYYY-MM-DDTHH:MM:SS+HH:MM\<close> (or \<^verbatim>\<open>-HH:MM\<close>), with the calendar arithmetic of the
  library (proleptic Gregorian ordinals). Every other string is mapped to \<open>None\<close>; the
  library accepts more formats, none of which the examples use.
\<close>

definition digit_value :: "char \<Rightarrow> int option" where
  "digit_value c =
     (let n = (of_char c :: nat) in if 48 \<le> n \<and> n \<le> 57 then Some (int n - 48) else None)"

fun number :: "string \<Rightarrow> int option" where
  "number [] = None"
| "number cs = foldl (\<lambda>acc c. case (acc, digit_value c) of
                                  (Some n, Some v) \<Rightarrow> Some (10 * n + v)
                                | _ \<Rightarrow> None) (Some 0) cs"

definition is_leap :: "int \<Rightarrow> bool" where
  "is_leap y = (y mod 4 = 0 \<and> (y mod 100 \<noteq> 0 \<or> y mod 400 = 0))"

definition days_in_month :: "int \<Rightarrow> int \<Rightarrow> int" where
  "days_in_month y m =
     (if m = 2 then (if is_leap y then 29 else 28)
      else if m = 4 \<or> m = 6 \<or> m = 9 \<or> m = 11 then 30 else 31)"

definition days_before_year :: "int \<Rightarrow> int" where
  "days_before_year y = (y - 1) * 365 + (y - 1) div 4 - (y - 1) div 100 + (y - 1) div 400"

definition days_before_month :: "int \<Rightarrow> int \<Rightarrow> int" where
  "days_before_month y m =
     sum_list (take (nat (m - 1))
                 [31, if is_leap y then 29 else 28, 31, 30, 31, 30, 31, 31, 30, 31, 30, 31])"

definition parse_date :: "string \<Rightarrow> int option" where
  "parse_date s =
     (if length s = 10 \<and> s ! 4 = CHR ''-'' \<and> s ! 7 = CHR ''-'' then
        (case (number (take 4 s), number (take 2 (drop 5 s)), number (drop 8 s)) of
           (Some y, Some m, Some d) \<Rightarrow>
             if 1 \<le> y \<and> 1 \<le> m \<and> m \<le> 12 \<and> 1 \<le> d \<and> d \<le> days_in_month y m
             then Some (days_before_year y + days_before_month y m + d - 1) else None
         | _ \<Rightarrow> None)
      else None)"

definition parse_time :: "string \<Rightarrow> int option" where
  "parse_time s =
     (if length s = 8 \<and> s ! 2 = CHR '':'' \<and> s ! 5 = CHR '':'' then
        (case (number (take 2 s), number (take 2 (drop 3 s)), number (drop 6 s)) of
           (Some h, Some mi, Some sec) \<Rightarrow>
             if h < 24 \<and> mi < 60 \<and> sec < 60 then Some (h * 3600 + mi * 60 + sec) else None
         | _ \<Rightarrow> None)
      else None)"

definition parse_offset :: "string \<Rightarrow> int option" where
  "parse_offset s =
     (if length s = 6 \<and> (s ! 0 = CHR ''+'' \<or> s ! 0 = CHR ''-'') \<and> s ! 3 = CHR '':'' then
        (case (number (take 2 (drop 1 s)), number (drop 4 s)) of
           (Some h, Some mi) \<Rightarrow>
             if h < 24 \<and> mi < 60
             then Some ((if s ! 0 = CHR ''-'' then - 1 else 1) * (h * 3600 + mi * 60))
             else None
         | _ \<Rightarrow> None)
      else None)"

definition fromisoformat_basic :: "string \<Rightarrow> datetime option" where
  "fromisoformat_basic s =
     (case parse_date (take 10 s) of
        None \<Rightarrow> None
      | Some days \<Rightarrow>
          if length s = 10 then Some (naive (days * 86400000000))
          else if s ! 10 \<noteq> CHR ''T'' then None
          else
            (case parse_time (take 8 (drop 11 s)) of
               None \<Rightarrow> None
             | Some secs \<Rightarrow>
                 (let w = days * 86400000000 + secs * 1000000 in
                  if length s = 19 then Some (naive w)
                  else
                    (case parse_offset (drop 19 s) of
                       None \<Rightarrow> None
                     | Some off \<Rightarrow> Some \<lparr>wall = w, utcoffset = Some (off * 1000000)\<rparr>))))"

text \<open>
  Truthiness of an optional string (\<^verbatim>\<open>if due_date:\<close>): \<open>None\<close> and the empty
  string are false.
\<close>

definition nonempty :: "string option \<Rightarrow> string option" where
  "nonempty x = (case x of None \<Rightarrow> None | Some s \<Rightarrow> if s = [] then None else Some s)"

text \<open>\<^verbatim>\<open>xs[:n]\<close>: a negative \<open>n\<close> counts from the end of the list.\<close>

definition slice_to :: "'a list \<Rightarrow> int \<Rightarrow> 'a list" where
  "slice_to xs n = (if 0 \<le> n then take (nat n) xs else take (length xs - nat (- n)) xs)"

section \<open>Task management tools (server.py, lines 125--351)\<close>

text \<open>
  In every function below, \<open>fromisoformat\<close> stands for \<^verbatim>\<open>datetime.fromisoformat\<close>
  (\<open>None\<close> where the library raises \<^verbatim>\<open>ValueError\<close>), \<open>uuid\<close> for the string
  \<^verbatim>\<open>uuid.uuid4()\<close> returns in the call, and each \<open>now\<close> for one reading of
  \<^verbatim>\<open>datetime.now()\<close>.
\<close>

definition create_task ::
  "(string \<Rightarrow> datetime option) \<Rightarrow> ConfigSchema \<Rightarrow> string \<Rightarrow> int \<Rightarrow> int \<Rightarrow>
   string \<Rightarrow> string option \<Rightarrow> Priority option \<Rightarrow> TaskCategory option \<Rightarrow> string option \<Rightarrow>
   real option \<Rightarrow> string list option \<Rightarrow> string option \<Rightarrow> string option \<Rightarrow> state \<Rightarrow> outcome" where
  "create_task fromisoformat session_config uuid now_created now_updated
     title description priority category due_date estimated_hours tags project_id assignee s =
   (let task_priority = (case priority of Some p \<Rightarrow> p | None \<Rightarrow> default_priority session_config);
        task_category = (case category of Some c \<Rightarrow> c | None \<Rightarrow> default_category session_config);
        parsed = (case nonempty due_date of
                    None \<Rightarrow> Some None
                  | Some d \<Rightarrow> (case fromisoformat (replace_Z d) of
                                None \<Rightarrow> None
                              | Some dt \<Rightarrow> Some (Some dt)))
    in case parsed of
         None \<Rightarrow> (Inr InvalidDateFormat, s)
       | Some parsed_due_date \<Rightarrow>
           (let task = \<lparr>id_task = uuid, title = title, description = description,
                        priority = task_priority, status = TODO, category = task_category,
                        due_date = parsed_due_date, created_at = naive now_created,
                        updated_at = naive now_updated, estimated_hours = estimated_hours,
                        actual_hours = None,
                        tags = (case tags of Some ts \<Rightarrow> ts | None \<Rightarrow> []),
                        dependencies = [], assignee = assignee, project_id = project_id\<rparr>
            in (Inr (TaskCreated task),
                s\<lparr>tasks_storage := AList.update uuid task (tasks_storage s)\<rparr>)))"
  for title description priority category due_date estimated_hours tags project_id assignee

text \<open>
  \<^verbatim>\<open>update_task\<close> assigns the fields of the stored object one after the other; the
  date is parsed between the assignment of \<open>category\<close> and that of \<open>estimated_hours\<close>,
  and a date that does not parse returns at once. The object is the one stored under
  \<open>task_id\<close>, so an assignment to it is an update of the dictionary at that key.
\<close>

definition update_task ::
  "(string \<Rightarrow> datetime option) \<Rightarrow> int \<Rightarrow> string \<Rightarrow> string option \<Rightarrow> string option \<Rightarrow>
   Priority option \<Rightarrow> TaskStatus option \<Rightarrow> TaskCategory option \<Rightarrow> string option \<Rightarrow>
   real option \<Rightarrow> real option \<Rightarrow> string list option \<Rightarrow> string option \<Rightarrow> state \<Rightarrow> outcome" where
  "update_task fromisoformat now task_id title description priority status category due_date
     estimated_hours actual_hours tags assignee s =
   (case map_of (tasks_storage s) task_id of
      None \<Rightarrow> (Inr (TaskNotFound task_id), s)
    | Some task \<Rightarrow>
        (let store = (\<lambda>t. s\<lparr>tasks_storage := AList.update task_id t (tasks_storage s)\<rparr>);
             t1 = (case title of None \<Rightarrow> task | Some v \<Rightarrow> task\<lparr>title := v\<rparr>);
             t2 = (case description of None \<Rightarrow> t1 | Some v \<Rightarrow> t1\<lparr>description := Some v\<rparr>);
             t3 = (case priority of None \<Rightarrow> t2 | Some v \<Rightarrow> t2\<lparr>priority := v\<rparr>);
             t4 = (case status of None \<Rightarrow> t3 | Some v \<Rightarrow> t3\<lparr>status := v\<rparr>);
             t5 = (case category of None \<Rightarrow> t4 | Some v \<Rightarrow> t4\<lparr>category := v\<rparr>);
             parsed = (case due_date of
                         None \<Rightarrow> Some t5
                       | Some d \<Rightarrow> (case fromisoformat (replace_Z d) of
                                     None \<Rightarrow> None
                                   | Some dt \<Rightarrow> Some (t5\<lparr>due_date := Some dt\<rparr>)))
         in case parsed of
              None \<Rightarrow> (Inr InvalidDateFormat, store t5)
            | Some t6 \<Rightarrow>
                (let t7 = (case estimated_hours of None \<Rightarrow> t6 | Some v \<Rightarrow> t6\<lparr>estimated_hours := Some v\<rparr>);
                     t8 = (case actual_hours of None \<Rightarrow> t7 | Some v \<Rightarrow> t7\<lparr>actual_hours := Some v\<rparr>);
                     t9 = (case tags of None \<Rightarrow> t8 | Some v \<Rightarrow> t8\<lparr>tags := v\<rparr>);
                     t10 = (case assignee of None \<Rightarrow> t9 | Some v \<Rightarrow> t9\<lparr>assignee := Some v\<rparr>);
                     t11 = t10\<lparr>updated_at := naive now\<rparr>
                 in (Inr (TaskUpdated t11), store t11))))"
  for task_id title description priority status category due_date estimated_hours actual_hours tags assignee

text \<open>
  \<^verbatim>\<open>delete_task\<close> pops the task, collects the keys of the time entries of that task
  and pops each of them; the keys were just read from the dictionary, so no pop raises.
\<close>

definition delete_task :: "string \<Rightarrow> state \<Rightarrow> outcome" where
  "delete_task task_id s =
   (case map_of (tasks_storage s) task_id of
      None \<Rightarrow> (Inr (TaskNotFound task_id), s)
    | Some task \<Rightarrow>
        (let s1 = s\<lparr>tasks_storage := AList.delete task_id (tasks_storage s)\<rparr>;
             entries_to_remove =
               map fst (filter (\<lambda>(entry_id, entry). TimeEntry.task_id entry = task_id)
                          (time_entries_storage s1))
         in (Inr (TaskDeleted (Task.title task) (length entries_to_remove)),
             s1\<lparr>time_entries_storage :=
                   foldl (\<lambda>d entry_id. AList.delete entry_id d) (time_entries_storage s1)
                     entries_to_remove\<rparr>)))"
  for task_id

text \<open>
  The sort of \<^verbatim>\<open>list_tasks\<close>. The key of a task is the pair of its priority rank
  and its due date, \<^verbatim>\<open>datetime.max\<close> standing for a missing one; pairs are compared
  lexicographically, so two dates are compared only under equal ranks.
  \<^verbatim>\<open>list.sort(reverse=True)\<close> reverses the list, sorts it stably in ascending
  order and reverses the result. A sort has to compare a naive date with an aware one
  as soon as two tasks of one rank carry one of each, and that comparison raises
  \<^verbatim>\<open>TypeError\<close>.
\<close>

definition priority_order :: "Priority \<Rightarrow> nat" where
  "priority_order p = (case p of URGENT \<Rightarrow> 4 | HIGH \<Rightarrow> 3 | MEDIUM \<Rightarrow> 2 | LOW \<Rightarrow> 1)"

definition due_key :: "Task \<Rightarrow> datetime" where
  "due_key t = (case due_date t of None \<Rightarrow> datetime_max | Some d \<Rightarrow> d)"

definition order_key :: "Task \<Rightarrow> nat \<times> int" where
  "order_key t = (priority_order (priority t), instant (due_key t))"

definition incomparable_keys :: "Task list \<Rightarrow> bool" where
  "incomparable_keys ts =
     list_ex (\<lambda>a. list_ex (\<lambda>b. priority_order (priority a) = priority_order (priority b)
                               \<and> \<not> comparable (due_key a) (due_key b)) ts) ts"

definition sort_tasks :: "Task list \<Rightarrow> py_error + Task list" where
  "sort_tasks ts =
     (if incomparable_keys ts then Inl TypeError
      else Inr (rev (sort_key order_key (rev ts))))"

definition list_tasks ::
  "TaskStatus option \<Rightarrow> Priority option \<Rightarrow> TaskCategory option \<Rightarrow> string option \<Rightarrow>
   string option \<Rightarrow> int \<Rightarrow> state \<Rightarrow> outcome" where
  "list_tasks status priority category assignee project_id limit s =
   (let tasks0 = map snd (tasks_storage s);
        tasks1 = (case status of None \<Rightarrow> tasks0
                  | Some v \<Rightarrow> filter (\<lambda>t. Task.status t = v) tasks0);
        tasks2 = (case priority of None \<Rightarrow> tasks1
                  | Some v \<Rightarrow> filter (\<lambda>t. Task.priority t = v) tasks1);
        tasks3 = (case category of None \<Rightarrow> tasks2
                  | Some v \<Rightarrow> filter (\<lambda>t. Task.category t = v) tasks2);
        tasks4 = (case nonempty assignee of None \<Rightarrow> tasks3
                  | Some v \<Rightarrow> filter (\<lambda>t. Task.assignee t = Some v) tasks3);
        tasks5 = (case nonempty project_id of None \<Rightarrow> tasks4
                  | Some v \<Rightarrow> filter (\<lambda>t. Task.project_id t = Some v) tasks4)
    in case sort_tasks tasks5 of
         Inl e \<Rightarrow> (Inl e, s)
       | Inr sorted_tasks \<Rightarrow>
           (let tasks = slice_to sorted_tasks limit
            in if tasks = [] then (Inr NoTasksFound, s) else (Inr (TasksFound tasks), s)))"
  for status priority category assignee project_id

text \<open>
  \<^verbatim>\<open>get_task_details\<close>, up to the values its report is rendered from: the task, its
  time entries and the sum of their durations (\<^verbatim>\<open>entry.duration_minutes or 0\<close>).
\<close>

definition get_task_details :: "string \<Rightarrow> state \<Rightarrow> outcome" where
  "get_task_details task_id s =
   (case map_of (tasks_storage s) task_id of
      None \<Rightarrow> (Inr (TaskNotFound task_id), s)
    | Some task \<Rightarrow>
        (let time_entries = filter (\<lambda>entry. TimeEntry.task_id entry = task_id)
                              (map snd (time_entries_storage s));
             total_time = sum_list (map (\<lambda>entry. case duration_minutes entry of
                                                   None \<Rightarrow> 0 | Some m \<Rightarrow> m) time_entries)
         in (Inr (TaskDetails task time_entries total_time), s)))"
  for task_id

section \<open>Time tracking tools (server.py, lines 355--476)\<close>

text \<open>
  The loop of \<^verbatim>\<open>start_timer\<close> and \<^verbatim>\<open>stop_timer\<close> over the values of
  \<^verbatim>\<open>time_entries_storage\<close>: the first entry of the task without an end time. It is
  returned with its key, under which \<^verbatim>\<open>stop_timer\<close> then mutates it.
\<close>

fun find_active :: "string \<Rightarrow> (string \<times> TimeEntry) list \<Rightarrow> (string \<times> TimeEntry) option" where
  "find_active tid [] = None"
| "find_active tid ((k, e) # es) =
     (if task_id e = tid \<and> end_time e = None then Some (k, e) else find_active tid es)"

definition start_timer :: "string \<Rightarrow> int \<Rightarrow> string \<Rightarrow> string option \<Rightarrow> state \<Rightarrow> outcome" where
  "start_timer uuid now task_id description s =
   (case map_of (tasks_storage s) task_id of
      None \<Rightarrow> (Inr (TaskNotFound task_id), s)
    | Some task \<Rightarrow>
        (case find_active task_id (time_entries_storage s) of
           Some (k, active_entry) \<Rightarrow>
             (Inr (TimerAlreadyRunning (Task.title task) (start_time active_entry)), s)
         | None \<Rightarrow>
             (let time_entry = \<lparr>id_entry = uuid, task_id = task_id, start_time = naive now,
                                 end_time = None, description_entry = description,
                                 duration_minutes = None\<rparr>
              in (Inr (TimerStarted (Task.title task) time_entry),
                  s\<lparr>time_entries_storage :=
                       AList.update uuid time_entry (time_entries_storage s)\<rparr>))))"
  for task_id description

text \<open>
  The entry \<^verbatim>\<open>stop_timer\<close> works on (lines 395--409): the one stored under
  \<open>time_entry_id\<close> when that argument is a non-empty string, else the first open entry
  of \<open>task_id\<close>.
\<close>

definition stop_timer_entry ::
  "string option \<Rightarrow> string option \<Rightarrow> state \<Rightarrow> response + (string \<times> TimeEntry)" where
  "stop_timer_entry time_entry_id task_id s =
   (case nonempty time_entry_id of
      Some k \<Rightarrow>
        (case map_of (time_entries_storage s) k of
           None \<Rightarrow> Inl (TimeEntryNotFound k)
         | Some entry \<Rightarrow> Inr (k, entry))
    | None \<Rightarrow>
        (case nonempty task_id of
           Some tid \<Rightarrow>
             (case find_active tid (time_entries_storage s) of
                None \<Rightarrow> Inl (NoActiveTimer tid)
              | Some ke \<Rightarrow> Inr ke)
         | None \<Rightarrow> Inl SelectorMissing))"
  for task_id

text \<open>
  \<^verbatim>\<open>stop_timer\<close> (lines 411--431). The end time is assigned before the subtraction
  and the duration before the task is looked up, so an exception leaves the entry as
  far as it was mutated. \<^verbatim>\<open>if task.actual_hours:\<close> is false for \<open>None\<close> and for
  zero.
\<close>

definition stop_timer :: "int \<Rightarrow> string option \<Rightarrow> string option \<Rightarrow> state \<Rightarrow> outcome" where
  "stop_timer now time_entry_id task_id s =
   (case stop_timer_entry time_entry_id task_id s of
      Inl r \<Rightarrow> (Inr r, s)
    | Inr (k, entry) \<Rightarrow>
        if end_time entry \<noteq> None then
          (case map_of (tasks_storage s) (TimeEntry.task_id entry) of
             None \<Rightarrow> (Inl KeyError, s)
           | Some task \<Rightarrow> (Inr (TimerAlreadyStopped (Task.title task)), s))
        else
          (let entry1 = entry\<lparr>end_time := Some (naive now)\<rparr>;
               s1 = s\<lparr>time_entries_storage := AList.update k entry1 (time_entries_storage s)\<rparr>
           in case datetime_sub (naive now) (start_time entry1) of
                Inl e \<Rightarrow> (Inl e, s1)
              | Inr duration \<Rightarrow>
                  (let entry2 = entry1\<lparr>duration_minutes := Some (whole_minutes duration)\<rparr>;
                       s2 = s1\<lparr>time_entries_storage :=
                                 AList.update k entry2 (time_entries_storage s1)\<rparr>
                   in case map_of (tasks_storage s2) (TimeEntry.task_id entry2) of
                        None \<Rightarrow> (Inl KeyError, s2)
                      | Some task \<Rightarrow>
                          (let hours = (case actual_hours task of
                                          None \<Rightarrow> hours_of duration
                                        | Some a \<Rightarrow> if a \<noteq> 0 then a + hours_of duration
                                                    else hours_of duration);
                               task1 = task\<lparr>actual_hours := Some hours\<rparr>
                           in (Inr (TimerStopped (Task.title task1) (whole_minutes duration) hours),
                               s2\<lparr>tasks_storage :=
                                     AList.update (TimeEntry.task_id entry2) task1
                                       (tasks_storage s2)\<rparr>)))))"
  for task_id

text \<open>
  The start time of \<^verbatim>\<open>log_time\<close> (lines 445--451): the clock's reading, unless a
  non-empty \<open>start_time\<close> is given, which is then parsed; \<open>None\<close> where the parser
  raises \<^verbatim>\<open>ValueError\<close>.
\<close>

definition parsed_start_time ::
  "(string \<Rightarrow> datetime option) \<Rightarrow> int \<Rightarrow> string option \<Rightarrow> datetime option" where
  "parsed_start_time fromisoformat now start_time =
     (case nonempty start_time of
        None \<Rightarrow> Some (naive now)
      | Some st \<Rightarrow> fromisoformat (replace_Z st))"
  for start_time

text \<open>
  \<^verbatim>\<open>log_time\<close> (lines 442--476). The time entry is constructed, and its end time
  computed, before anything is stored.
\<close>

definition log_time ::
  "(string \<Rightarrow> datetime option) \<Rightarrow> string \<Rightarrow> int \<Rightarrow> string \<Rightarrow> int \<Rightarrow> string option \<Rightarrow>
   string option \<Rightarrow> state \<Rightarrow> outcome" where
  "log_time fromisoformat uuid now task_id duration_minutes description start_time s =
   (case map_of (tasks_storage s) task_id of
      None \<Rightarrow> (Inr (TaskNotFound task_id), s)
    | Some task \<Rightarrow>
        (case parsed_start_time fromisoformat now start_time of
           None \<Rightarrow> (Inr InvalidDateFormat, s)
         | Some start \<Rightarrow>
             (case timedelta_minutes duration_minutes of
                Inl e \<Rightarrow> (Inl e, s)
              | Inr delta \<Rightarrow>
                  (case datetime_add start delta of
                     Inl e \<Rightarrow> (Inl e, s)
                   | Inr end_dt \<Rightarrow>
                       (let time_entry = \<lparr>id_entry = uuid, task_id = task_id,
                                           start_time = start,
                                           end_time = Some end_dt,
                                           description_entry = description,
                                           duration_minutes = Some duration_minutes\<rparr>;
                            hours = (case actual_hours task of
                                       None \<Rightarrow> real_of_int duration_minutes / 60
                                     | Some a \<Rightarrow> if a \<noteq> 0
                                                 then a + real_of_int duration_minutes / 60
                                                 else real_of_int duration_minutes / 60);
                            task1 = task\<lparr>actual_hours := Some hours\<rparr>
                        in (Inr (TimeLogged (Task.title task1) duration_minutes hours),
                            s\<lparr>time_entries_storage :=
                                 AList.update uuid time_entry (time_entries_storage s),
                               tasks_storage := AList.update task_id task1 (tasks_storage s)\<rparr>))))))"
  for task_id duration_minutes description start_time

section \<open>Analytics (server.py, lines 509--531)\<close>

text \<open>
  The productivity metric of \<^verbatim>\<open>get_time_analytics\<close>: \<open>total_hours\<close> (line 510),
  \<open>expected_hours\<close> (line 530) and the guarded ratio (line 531).
\<close>

definition productivity_ratio :: "int \<Rightarrow> int \<Rightarrow> real \<Rightarrow> real" where
  "productivity_ratio total_minutes days work_hours_per_day =
     (let total_hours = real_of_int total_minutes / 60;
          expected_hours = work_hours_per_day * real_of_int days
      in if expected_hours > 0 then (total_hours / expected_hours) * 100 else 0)"
  for work_hours_per_day

section \<open>Sequences of operations\<close>

text \<open>
  The field defaults of \<^verbatim>\<open>ConfigSchema\<close> (lines 93--108).
\<close>

definition default_config :: ConfigSchema where
  "default_config =
     \<lparr>default_priority = MEDIUM, default_category = OTHER, timezone = ''UTC'',
      work_hours_per_day = 8, focus_mode = False, auto_track_time = True,
      slack_webhook = None, calendar_integration = False, weekly_reports = True,
      detailed_analytics = False\<rparr>"

text \<open>
  One call of a mutating tool, with the values the call reads from its environment
  (the session's configuration, the drawn uuid, the clock) before the arguments of the
  tool in the order of its signature. The server handles one call after the other on
  the shared dictionaries, and a call that raised leaves them as they were when it
  raised.
\<close>

datatype operation =
    CreateTask ConfigSchema string int int string "string option" "Priority option"
      "TaskCategory option" "string option" "real option" "string list option"
      "string option" "string option"
  | UpdateTask int string "string option" "string option" "Priority option"
      "TaskStatus option" "TaskCategory option" "string option" "real option" "real option"
      "string list option" "string option"
  | DeleteTask string
  | StartTimer string int string "string option"
  | StopTimer int "string option" "string option"
  | LogTime string int string int "string option" "string option"

fun perform :: "(string \<Rightarrow> datetime option) \<Rightarrow> operation \<Rightarrow> state \<Rightarrow> outcome" where
  "perform fromiso (CreateTask cfg uuid now1 now2 ti de pr ca du es ta pj asg) s =
     create_task fromiso cfg uuid now1 now2 ti de pr ca du es ta pj asg s"
| "perform fromiso (UpdateTask now tid ti de pr st ca du es ac ta asg) s =
     update_task fromiso now tid ti de pr st ca du es ac ta asg s"
| "perform fromiso (DeleteTask tid) s = delete_task tid s"
| "perform fromiso (StartTimer uuid now tid de) s = start_timer uuid now tid de s"
| "perform fromiso (StopTimer now eid tid) s = stop_timer now eid tid s"
| "perform fromiso (LogTime uuid now tid dur de st) s = log_time fromiso uuid now tid dur de st s"

fun run :: "(string \<Rightarrow> datetime option) \<Rightarrow> operation list \<Rightarrow> state \<Rightarrow> state" where
  "run fromiso [] s = s"
| "run fromiso (op # ops) s = run fromiso ops (snd (perform fromiso op s))"

text \<open>
  The open entries of a task: the time entries in the dictionary that carry the task's
  id and no end time.
\<close>

definition is_open :: "string \<Rightarrow> TimeEntry \<Rightarrow> bool" where
  "is_open tid e = (task_id e = tid \<and> end_time e = None)"

definition opens :: "string \<Rightarrow> (string \<times> TimeEntry) list \<Rightarrow> TimeEntry list" where
  "opens tid al = filter (is_open tid) (map snd al)"

definition open_entries :: "string \<Rightarrow> state \<Rightarrow> TimeEntry list" where
  "open_entries tid s = opens tid (time_entries_storage s)"

definition I1 :: "state \<Rightarrow> bool" where
  "I1 s = (\<forall>tid. length (open_entries tid s) \<le> 1)"

section \<open>Example data\<close>

text \<open>
  The first steps of the scenario of the specification: the task "Write spec" of high
  priority is created and its timer started. The clock readings are microseconds.
\<close>

definition running_example :: "operation list" where
  "running_example =
     [CreateTask default_config ''t1'' 0 0 ''Write spec'' None (Some HIGH) None None None None None None,
      StartTimer ''e1'' 100 ''t1'' None]"

text \<open>
  The scenario continued: the timer is stopped 90 minutes after its start, and started
  again.
\<close>

definition stopped_example :: state where
  "stopped_example =
     snd (stop_timer 5400000100 None (Some ''t1'') (run fromisoformat_basic running_example init_state))"

definition restarted_example :: state where
  "restarted_example = snd (start_timer ''e2'' 6000000000 ''t1'' None stopped_example)"

text \<open>
  The same task with its timer started at clock reading 90000000 (90 seconds), for a
  stop at an earlier reading of the clock.
\<close>

definition backward_clock_example :: "operation list" where
  "backward_clock_example =
     [CreateTask default_config ''t1'' 0 0 ''Write spec'' None (Some HIGH) None None None None None None,
      StartTimer ''e1'' 90000000 ''t1'' None]"

text \<open>
  A storage with two tasks and three closed time entries, two of them of the first
  task, and one project.
\<close>

definition plain_task :: "string \<Rightarrow> string \<Rightarrow> Task" where
  "plain_task uuid name =
     \<lparr>id_task = uuid, title = name, description = None, priority = MEDIUM, status = TODO,
      category = OTHER, due_date = None, created_at = naive 0, updated_at = naive 0,
      estimated_hours = None, actual_hours = None, tags = [], dependencies = [],
      assignee = None, project_id = None\<rparr>"

definition closed_entry :: "string \<Rightarrow> string \<Rightarrow> TimeEntry" where
  "closed_entry uuid tid =
     \<lparr>id_entry = uuid, task_id = tid, start_time = naive 0, end_time = Some (naive 60000000),
      description_entry = None, duration_minutes = Some 1\<rparr>"

definition two_tasks_example :: state where
  "two_tasks_example =
     \<lparr>tasks_storage = [(''t1'', plain_task ''t1'' ''First''), (''t2'', plain_task ''t2'' ''Second'')],
      projects_storage =
        [(''p1'', \<lparr>id_project = ''p1'', name_project = ''Project'', description_project = None,
                   start_date = None, end_date = None, status_project = ''active'',
                   team_members = [], budget = None, created_at_project = naive 0\<rparr>)],
      time_entries_storage =
        [(''e1'', closed_entry ''e1'' ''t1''), (''e2'', closed_entry ''e2'' ''t2''),
         (''e3'', closed_entry ''e3'' ''t1'')]\<rparr>"

text \<open>
  Three tasks of medium priority, created in this order: one due on 2024-01-01, one due
  on 2024-12-31 and one without a due date. In the second storage the first due date is
  written with the suffix \<^verbatim>\<open>Z\<close> of the documented format.
\<close>

definition due_task :: "string \<Rightarrow> string \<Rightarrow> string \<Rightarrow> Task" where
  "due_task uuid name due = (plain_task uuid name)\<lparr>due_date := fromisoformat_basic (replace_Z due)\<rparr>"

definition due_dates_example :: state where
  "due_dates_example =
     \<lparr>tasks_storage =
        [(''a'', due_task ''a'' ''Early'' ''2024-01-01T00:00:00''),
         (''b'', due_task ''b'' ''Late'' ''2024-12-31T00:00:00''),
         (''c'', plain_task ''c'' ''Undated'')],
      projects_storage = [], time_entries_storage = []\<rparr>"

definition aware_due_example :: state where
  "aware_due_example =
     \<lparr>tasks_storage =
        [(''a'', due_task ''a'' ''Early'' ''2024-01-01T00:00:00Z''),
         (''c'', plain_task ''c'' ''Undated'')],
      projects_storage = [], time_entries_storage = []\<rparr>"

text \<open>
  What every storage reached from the empty one satisfies: the keys of each dictionary
  are distinct, every time entry belongs to a stored task, and an entry without an end
  time has a naive start time (it was created by \<^verbatim>\<open>start_timer\<close>).
\<close>

definition entry_ok :: "(string \<times> Task) list \<Rightarrow> TimeEntry \<Rightarrow> bool" where
  "entry_ok tasks e =
     (map_of tasks (task_id e) \<noteq> None
      \<and> (end_time e \<noteq> None \<or> utcoffset (start_time e) = None))"

definition well_formed :: "state \<Rightarrow> bool" where
  "well_formed s =
     (distinct (map fst (tasks_storage s))
      \<and> distinct (map fst (time_entries_storage s))
      \<and> list_all (entry_ok (tasks_storage s)) (map snd (time_entries_storage s)))"

section \<open>Supporting lemmas\<close>

subsection \<open>At most one open timer per task\<close>

lemma opens_update_closed:
  "\<not> is_open tid v \<Longrightarrow> length (opens tid (AList.update k v al)) \<le> length (opens tid al)"
  unfolding opens_def by (induction al) auto

lemma opens_update_Suc:
  "length (opens tid (AList.update k v al)) \<le> Suc (length (opens tid al))"
  unfolding opens_def by (induction al) auto

lemma opens_delete:
  "length (opens tid (AList.delete k al)) \<le> length (opens tid al)"
  unfolding opens_def by (induction al) (auto simp: le_SucI)

lemma opens_foldl_delete:
  "length (opens tid (foldl (\<lambda>d k. AList.delete k d) al ks)) \<le> length (opens tid al)"
proof (induction ks arbitrary: al)
  case Nil
  then show ?case by simp
next
  case (Cons k ks)
  have "length (opens tid (foldl (\<lambda>d k. AList.delete k d) (AList.delete k al) ks))
        \<le> length (opens tid (AList.delete k al))"
    by (rule Cons.IH)
  also have "\<dots> \<le> length (opens tid al)" by (rule opens_delete)
  finally show ?case by simp
qed

lemma find_active_None:
  "find_active tid al = None \<longleftrightarrow> opens tid al = []"
  unfolding opens_def
  by (induction tid al rule: find_active.induct) (auto simp: is_open_def)

lemma find_active_Some:
  "find_active tid al = Some (k, e) \<Longrightarrow> (k, e) \<in> set al \<and> is_open tid e"
  by (induction tid al rule: find_active.induct) (auto simp: is_open_def split: if_splits)

lemma I1_create_task: "I1 s \<Longrightarrow> I1 (snd (create_task fromiso cfg uuid n1 n2 ti de pr ca du es ta pj asg s))"
  by (auto simp: I1_def open_entries_def create_task_def Let_def split: option.splits)

lemma I1_update_task: "I1 s \<Longrightarrow> I1 (snd (update_task fromiso now tid ti de pr st ca du es ac ta asg s))"
  by (auto simp: I1_def open_entries_def update_task_def Let_def split: option.splits)

lemma I1_delete_task: "I1 s \<Longrightarrow> I1 (snd (delete_task tid s))"
  unfolding I1_def open_entries_def delete_task_def Let_def
  by (auto split: option.splits intro: order_trans [OF opens_foldl_delete])

lemma I1_start_timer:
  assumes "I1 s" shows "I1 (snd (start_timer uuid now tid de s))"
proof (cases "map_of (tasks_storage s) tid")
  case None
  with assms show ?thesis by (simp add: start_timer_def)
next
  case (Some task)
  show ?thesis
  proof (cases "find_active tid (time_entries_storage s)")
    case (Some ke)
    with \<open>map_of (tasks_storage s) tid = Some task\<close> assms show ?thesis
      by (cases ke) (simp add: start_timer_def)
  next
    case None
    let ?e = "\<lparr>id_entry = uuid, task_id = tid, start_time = naive now, end_time = None,
               description_entry = de, duration_minutes = None\<rparr>"
    have none: "opens tid (time_entries_storage s) = []"
      using None by (simp add: find_active_None)
    have "length (opens t (AList.update uuid ?e (time_entries_storage s))) \<le> 1" for t
    proof (cases "t = tid")
      case True
      then show ?thesis using opens_update_Suc [of tid uuid ?e "time_entries_storage s"] none
        by simp
    next
      case False
      then have "\<not> is_open t ?e" by (simp add: is_open_def)
      from opens_update_closed [OF this] assms show ?thesis
        unfolding I1_def open_entries_def by (meson order_trans)
    qed
    with None \<open>map_of (tasks_storage s) tid = Some task\<close> show ?thesis
      by (simp add: start_timer_def I1_def open_entries_def Let_def)
  qed
qed

lemma I1_closed_update:
  assumes "I1 s" "end_time e \<noteq> None"
  shows "I1 (s\<lparr>time_entries_storage := AList.update k e (time_entries_storage s)\<rparr>)"
proof -
  have "length (opens t (AList.update k e (time_entries_storage s))) \<le> 1" for t
  proof -
    have "\<not> is_open t e" using assms(2) by (simp add: is_open_def)
    then have "length (opens t (AList.update k e (time_entries_storage s)))
               \<le> length (opens t (time_entries_storage s))"
      by (rule opens_update_closed)
    also have "\<dots> \<le> 1" using assms(1) by (simp add: I1_def open_entries_def)
    finally show ?thesis .
  qed
  then show ?thesis by (simp add: I1_def open_entries_def)
qed

lemma I1_tasks_update: "I1 (s\<lparr>tasks_storage := ts\<rparr>) = I1 s"
  by (simp add: I1_def open_entries_def)

lemma I1_stop_timer: assumes "I1 s" shows "I1 (snd (stop_timer now eid tid s))"
proof -
  have a: "I1 (s\<lparr>time_entries_storage := AList.update k (e\<lparr>end_time := Some d\<rparr>) (time_entries_storage s)\<rparr>)" for k e d
    using assms by (rule I1_closed_update) simp
  have b: "I1 (s\<lparr>time_entries_storage := AList.update k (e\<lparr>end_time := Some d, duration_minutes := m\<rparr>) (time_entries_storage s)\<rparr>)" for k e d m
    using assms by (rule I1_closed_update) simp
  show ?thesis
    using assms a b
    by (auto simp: stop_timer_def Let_def I1_tasks_update split: sum.splits option.splits prod.splits)
qed

lemma I1_log_time: assumes "I1 s" shows "I1 (snd (log_time fromiso uuid now tid dur de st s))"
proof -
  have a: "I1 (s\<lparr>time_entries_storage := AList.update k \<lparr>id_entry = i, task_id = t, start_time = st', end_time = Some d, description_entry = de', duration_minutes = m\<rparr> (time_entries_storage s)\<rparr>)" for k i t st' d de' m
    using assms by (rule I1_closed_update) simp
  show ?thesis
    using assms a
    by (auto simp: log_time_def Let_def I1_tasks_update split: sum.splits option.splits)
qed

lemma I1_perform: "I1 s \<Longrightarrow> I1 (snd (perform fromiso op s))"
  by (cases op) (simp_all add: I1_create_task I1_update_task I1_delete_task I1_start_timer I1_stop_timer I1_log_time)

lemma I1_run: "I1 s \<Longrightarrow> I1 (run fromiso ops s)"
  by (induction ops arbitrary: s) (simp_all add: I1_perform)

lemma I1_init: "I1 init_state"
  by (simp add: I1_def open_entries_def opens_def init_state_def)

lemma find_active_opens:
  "opens tid al = e # es \<Longrightarrow> \<exists>k. find_active tid al = Some (k, e)"
  unfolding opens_def
  by (induction tid al rule: find_active.induct) (auto simp: is_open_def split: if_splits)

subsection \<open>Elapsed time\<close>

lemma bit_length_0: "bit_length 0 = 0"
  by (simp add: bit_length.simps)

lemma bit_length_1: "bit_length 1 = 1"
  by (subst bit_length.simps) (simp add: bit_length_0)

lemma bit_length_Bit0: "bit_length (numeral (Num.Bit0 n)) = Suc (bit_length (numeral n))"
  by (subst bit_length.simps) simp

lemma bit_length_Bit1: "bit_length (numeral (Num.Bit1 n)) = Suc (bit_length (numeral n))"
  by (subst bit_length.simps) simp

lemma bit_length_One: "bit_length (numeral Num.One) = 1"
  using bit_length_1 by simp

lemmas float_eval =
  float_div_def round_half_even_def bit_length_0 bit_length_1 bit_length_Bit0 bit_length_Bit1
  bit_length_One Let_def


lemma bit_length_bounds:
  "0 < n \<Longrightarrow> 2 ^ (bit_length n - 1) \<le> n \<and> n < 2 ^ bit_length n"
proof (induction n rule: bit_length.induct)
  case (1 n)
  show ?case
  proof (cases "n = 1")
    case True
    then show ?thesis by (simp add: bit_length_1)
  next
    case False
    with 1 have h: "0 < n div 2" by simp
    from "1.IH" h "1.prems" have IH: "2 ^ (bit_length (n div 2) - 1) \<le> n div 2"
      "n div 2 < 2 ^ bit_length (n div 2)" by simp_all
    have pos: "0 < bit_length (n div 2)"
      using h by (subst bit_length.simps) simp
    have bl: "bit_length n = Suc (bit_length (n div 2))"
      using "1.prems" by (subst bit_length.simps) simp
    have "2 ^ bit_length (n div 2) = (2::int) * 2 ^ (bit_length (n div 2) - 1)"
      using pos by (cases "bit_length (n div 2)") simp_all
    with IH show ?thesis unfolding bl by simp presburger
  qed
qed

lemma two_powr_int:
  "(2::real) ^ nat s / 2 ^ nat (- s) = 2 powr real_of_int s"
proof (cases "0 \<le> s")
  case True
  then have "2 powr real_of_int s = 2 powr real (nat s)" by simp
  also have "\<dots> = 2 ^ nat s" by (rule powr_realpow) simp
  finally show ?thesis using True by simp
next
  case False
  then have "2 powr real_of_int s = 2 powr (- real (nat (- s)))" by simp
  also have "\<dots> = 1 / 2 powr real (nat (- s))" by (simp add: powr_minus divide_inverse)
  also have "2 powr real (nat (- s)) = 2 ^ nat (- s)" by (rule powr_realpow) simp
  finally show ?thesis using False by simp
qed

lemma round_half_even_error:
  assumes "0 < v"
  shows "\<bar>real_of_int (round_half_even u v) - real_of_int u / real_of_int v\<bar> \<le> 1 / 2"
proof -
  define f where "f = u div v"
  define r where "r = u mod v"
  have u: "u = v * f + r" by (simp add: f_def r_def)
  have r: "0 \<le> r" "r < v" using assms by (simp_all add: r_def)
  have q: "real_of_int u / real_of_int v = real_of_int f + real_of_int r / real_of_int v"
    using assms by (simp add: u field_simps)
  consider "2 * r < v" | "v < 2 * r" | "2 * r = v" by linarith
  then show ?thesis
  proof cases
    case 1
    then have "real_of_int (2 * r) < real_of_int v" by (simp only: of_int_less_iff)
    then have "real_of_int r / real_of_int v \<le> 1 / 2" using assms by (simp add: field_simps)
    moreover have "0 \<le> real_of_int r / real_of_int v" using r assms by simp
    moreover have "round_half_even u v = f"
      using 1 by (simp add: round_half_even_def Let_def f_def r_def)
    ultimately show ?thesis unfolding q by simp
  next
    case 2
    then have "real_of_int v < real_of_int (2 * r)" by (simp only: of_int_less_iff)
    then have "1 / 2 \<le> real_of_int r / real_of_int v" using assms by (simp add: field_simps)
    moreover have "real_of_int r / real_of_int v < 1" using r assms by simp
    moreover have "round_half_even u v = f + 1"
      using 2 by (simp add: round_half_even_def Let_def f_def r_def)
    ultimately show ?thesis unfolding q by simp
  next
    case 3
    then have "real_of_int (2 * r) = real_of_int v" by (simp only:)
    then have h: "real_of_int r / real_of_int v = 1 / 2" using assms by (simp add: field_simps)
    have "round_half_even u v = f \<or> round_half_even u v = f + 1"
      using 3 by (simp add: round_half_even_def Let_def f_def r_def)
    then show ?thesis unfolding q h by auto
  qed
qed

lemma round_half_even_exact:
  assumes "0 < v" and "v dvd u"
  shows "round_half_even u v = u div v"
  using assms by (simp add: round_half_even_def Let_def mod_eq_0_iff_dvd)

lemma float_div_form:
  assumes p: "p \<noteq> 0" and q: "0 < q"
  obtains e where
    "float_div p q =
       (sgn p * round_half_even (\<bar>p\<bar> * 2 ^ nat (52 - e)) (q * 2 ^ nat (e - 52)) * 2 ^ nat (e - 52),
        2 ^ nat (52 - e))"
    and "2 powr real_of_int e \<le> real_of_int \<bar>p\<bar> / real_of_int q"
proof -
  define a where "a = \<bar>p\<bar>"
  define d where "d = int (bit_length a) - int (bit_length q)"
  define e where "e = (if q * 2 ^ nat d \<le> a * 2 ^ nat (- d) then d else d - 1)"
  have a: "0 < a" using p by (simp add: a_def)
  have form: "float_div p q =
       (sgn p * round_half_even (\<bar>p\<bar> * 2 ^ nat (52 - e)) (q * 2 ^ nat (e - 52)) * 2 ^ nat (e - 52),
        2 ^ nat (52 - e))"
    using p by (simp add: float_div_def Let_def e_def d_def a_def)
  have low: "2 powr real_of_int e \<le> real_of_int a / real_of_int q"
  proof (cases "q * 2 ^ nat d \<le> a * 2 ^ nat (- d)")
    case True
    then have "real_of_int (q * 2 ^ nat d) \<le> real_of_int (a * 2 ^ nat (- d))"
      by (simp only: of_int_le_iff)
    then have "real_of_int q * real_of_int (2 ^ nat d) \<le> real_of_int a * real_of_int (2 ^ nat (- d))"
      by simp
    then have "real_of_int (2 ^ nat d) / real_of_int (2 ^ nat (- d)) \<le> real_of_int a / real_of_int q"
      using q by (simp add: field_simps)
    then show ?thesis using True by (simp add: e_def two_powr_int)
  next
    case False
    from bit_length_bounds [OF a] have "2 ^ (bit_length a - 1) \<le> a" by simp
    then have la: "(2::real) ^ (bit_length a - 1) \<le> real_of_int a"
      by (metis of_int_le_iff of_int_numeral of_int_power)
    from bit_length_bounds [OF q] have "q < 2 ^ bit_length q" by simp
    then have lq: "real_of_int q < (2::real) ^ bit_length q"
      by (metis of_int_less_iff of_int_numeral of_int_power)
    have ba: "0 < bit_length a" using a by (subst bit_length.simps) simp
    have "real_of_int (d - 1) = real (bit_length a - 1) - real (bit_length q)"
      using ba by (simp add: d_def)
    then have "2 powr real_of_int (d - 1) = 2 powr (real (bit_length a - 1) - real (bit_length q))"
      by (rule arg_cong)
    also have "\<dots> = 2 powr real (bit_length a - 1) / 2 powr real (bit_length q)"
      by (simp add: powr_diff)
    also have "\<dots> = 2 ^ (bit_length a - 1) / 2 ^ bit_length q"
      by (simp add: powr_realpow)
    also have "\<dots> \<le> real_of_int a / real_of_int q"
      using la lq q a by (intro frac_le) simp_all
    finally show ?thesis using False by (simp add: e_def)
  qed
  from low have "2 powr real_of_int e \<le> real_of_int \<bar>p\<bar> / real_of_int q"
    by (simp only: a_def)
  with form show thesis by (rule that)
qed

lemma float_div_error:
  assumes p: "p \<noteq> 0" and q: "0 < q"
  shows "0 < snd (float_div p q)
         \<and> \<bar>fval (float_div p q) - real_of_int p / real_of_int q\<bar>
             \<le> \<bar>real_of_int p / real_of_int q\<bar> / 2 ^ 53"
proof -
  from float_div_form [OF p q] obtain e where
    form: "float_div p q =
       (sgn p * round_half_even (\<bar>p\<bar> * 2 ^ nat (52 - e)) (q * 2 ^ nat (e - 52)) * 2 ^ nat (e - 52),
        2 ^ nat (52 - e))"
    and low: "2 powr real_of_int e \<le> real_of_int \<bar>p\<bar> / real_of_int q"
    by blast
  define A where "A = real_of_int \<bar>p\<bar> / real_of_int q"
  define sg where "sg = 2 powr real_of_int (52 - e)"
  define M where "M = real_of_int (round_half_even (\<bar>p\<bar> * 2 ^ nat (52 - e)) (q * 2 ^ nat (e - 52)))"
  have sg_pos: "0 < sg" by (simp add: sg_def)
  have sg_eq: "(2::real) ^ nat (52 - e) / 2 ^ nat (e - 52) = sg"
    using two_powr_int [of "52 - e"] by (simp add: sg_def)
  have V: "0 < q * 2 ^ nat (e - 52)" using q by simp
  have quot: "real_of_int (\<bar>p\<bar> * 2 ^ nat (52 - e)) / real_of_int (q * 2 ^ nat (e - 52)) = A * sg"
    unfolding A_def sg_eq [symmetric] by simp
  from round_half_even_error [OF V, of "\<bar>p\<bar> * 2 ^ nat (52 - e)"]
  have err: "\<bar>M - A * sg\<bar> \<le> 1 / 2" unfolding M_def quot .
  have val: "fval (float_div p q) = real_of_int (sgn p) * (M / sg)"
    unfolding form fval_def M_def sg_eq [symmetric] by simp
  have pq: "real_of_int p / real_of_int q = real_of_int (sgn p) * A"
    unfolding A_def by (simp add: sgn_if)
  have sgn1: "\<bar>real_of_int (sgn p)\<bar> = 1" using p by (simp add: sgn_if)
  have "sg * 2 powr real_of_int e = 2 powr 52"
    unfolding sg_def by (simp add: powr_add [symmetric])
  then have sg52: "sg * 2 powr real_of_int e = 2 ^ 52" by simp
  have "real_of_int (sgn p) * (M / sg) - real_of_int (sgn p) * A
        = real_of_int (sgn p) * (M / sg - A)"
    by (rule right_diff_distrib [symmetric])
  then have "\<bar>fval (float_div p q) - real_of_int p / real_of_int q\<bar>
        = \<bar>real_of_int (sgn p)\<bar> * \<bar>M / sg - A\<bar>"
    unfolding val pq by (simp only: abs_mult)
  also have "\<dots> = \<bar>M / sg - A\<bar>" by (simp only: sgn1 mult_1)
  also have "\<dots> = \<bar>M - A * sg\<bar> / sg"
    using sg_pos by (simp add: field_simps)
  also have "\<dots> \<le> (1 / 2) / sg"
    using err sg_pos by (intro divide_right_mono) simp_all
  also have "\<dots> = 2 powr real_of_int e / 2 ^ 53"
    using sg52 sg_pos by (simp add: field_simps)
  also have "\<dots> \<le> A / 2 ^ 53"
    using low by (simp add: A_def divide_right_mono)
  finally have "\<bar>fval (float_div p q) - real_of_int p / real_of_int q\<bar> \<le> A / 2 ^ 53" .
  moreover have "A = \<bar>real_of_int p / real_of_int q\<bar>" using q by (simp add: A_def)
  moreover have "0 < snd (float_div p q)" unfolding form by simp
  ultimately show ?thesis by simp
qed

lemma float_div_exact:
  assumes q: "0 < q" and k: "k \<noteq> 0" and bound: "\<bar>k\<bar> < 2 ^ 53"
  shows "0 < snd (float_div (k * q) q) \<and> fst (float_div (k * q) q) = k * snd (float_div (k * q) q)"
proof -
  have p: "k * q \<noteq> 0" using q k by simp
  from float_div_form [OF p q] obtain e where
    form: "float_div (k * q) q =
       (sgn (k * q) * round_half_even (\<bar>k * q\<bar> * 2 ^ nat (52 - e)) (q * 2 ^ nat (e - 52))
          * 2 ^ nat (e - 52),
        2 ^ nat (52 - e))"
    and low: "2 powr real_of_int e \<le> real_of_int \<bar>k * q\<bar> / real_of_int q"
    by blast
  have "real_of_int \<bar>k * q\<bar> / real_of_int q = real_of_int \<bar>k\<bar>"
    using q by (simp add: abs_mult)
  also have "\<dots> < 2 ^ 53" using bound by (metis of_int_less_iff of_int_numeral of_int_power)
  also have "\<dots> = 2 powr real_of_int 53" by simp
  finally have "real_of_int \<bar>k * q\<bar> / real_of_int q < 2 powr real_of_int 53" .
  with low have "2 powr real_of_int e < 2 powr real_of_int 53" by (rule le_less_trans)
  then have "real_of_int e < real_of_int 53" by (rule powr_less_cancel) simp
  then have e: "e \<le> 52" by simp
  then have n0: "nat (e - 52) = 0" by simp
  have dv: "q dvd \<bar>k * q\<bar> * 2 ^ nat (52 - e)" by (simp add: abs_mult)
  have m: "round_half_even (\<bar>k * q\<bar> * 2 ^ nat (52 - e)) q = \<bar>k\<bar> * 2 ^ nat (52 - e)"
    using round_half_even_exact [OF q dv] q by (simp add: abs_mult)
  have sg: "sgn (k * q) * \<bar>k\<bar> = k" using q by (simp add: sgn_mult abs_sgn mult.commute)
  show ?thesis
    unfolding form n0 using m sg by (simp add: mult.assoc [symmetric])
qed

lemma float_div_neg:
  "float_div (- p) q = (- fst (float_div p q), snd (float_div p q))"
  by (simp add: float_div_def Let_def)

lemma whole_minutes_neg: "whole_minutes (- us) = - whole_minutes us"
  by (simp add: whole_minutes_def Let_def float_div_neg)

lemma trunc_of_floor:
  assumes d: "0 < d" and lo: "real_of_int k \<le> real_of_int n / real_of_int d"
    and hi: "real_of_int n / real_of_int d < real_of_int k + 1" and k: "0 \<le> k"
  shows "sgn n * (\<bar>n\<bar> div d) = k"
proof -
  have "\<lfloor>real_of_int n / real_of_int d\<rfloor> = k" using lo hi by (rule floor_unique)
  then have nd: "n div d = k" by (simp add: floor_divide_of_int_eq)
  have "0 \<le> real_of_int n / real_of_int d" using lo k by simp
  then have "0 \<le> n" using d by (simp add: zero_le_divide_iff)
  then show ?thesis using nd by (cases "n = 0") (auto simp: sgn_if)
qed

lemma whole_minutes_nonneg:
  assumes nn: "0 \<le> us" and bound: "us < 2 ^ 51"
  shows "whole_minutes us = us div 60000000"
proof (cases "us = 0")
  case True
  then show ?thesis by (simp add: whole_minutes_def float_div_def)
next
  case False
  with nn have pos: "0 < us" by simp
  define k where "k = us div 60000000"
  define r where "r = us mod 60000000"
  have us: "us = 60000000 * k + r" by (simp add: k_def r_def)
  have r: "0 \<le> r" "r < 60000000" by (simp_all add: r_def)
  have k: "0 \<le> k" using nn by (simp add: k_def)
  have kb: "k < 2 ^ 51" using bound nn k_def by simp
  define n1 where "n1 = fst (float_div us 1000000)"
  define d1 where "d1 = snd (float_div us 1000000)"
  define n2 where "n2 = fst (float_div n1 (d1 * 60))"
  define d2 where "d2 = snd (float_div n1 (d1 * 60))"
  have wm: "whole_minutes us = sgn n2 * (\<bar>n2\<bar> div d2)"
    by (simp add: whole_minutes_def Let_def n1_def d1_def n2_def d2_def)
  have "sgn n2 * (\<bar>n2\<bar> div d2) = k"
  proof (cases "r = 0")
    case True
    with us pos have kpos: "k \<noteq> 0" and us': "us = (60 * k) * 1000000" by auto
    have b1: "\<bar>60 * k\<bar> < 2 ^ 53" using bound us' k by simp
    from float_div_exact [of 1000000 "60 * k"] kpos b1
    have e1: "0 < d1" "n1 = (60 * k) * d1" unfolding n1_def d1_def us' by simp_all
    have n1': "n1 = k * (d1 * 60)" using e1 by simp
    have b2: "\<bar>k\<bar> < 2 ^ 53" using kb k by simp
    from float_div_exact [of "d1 * 60" k] kpos b2 e1(1)
    have e2: "0 < d2" "n2 = k * d2" unfolding n2_def d2_def n1' by simp_all
    have "real_of_int n2 / real_of_int d2 = real_of_int k" using e2 by simp
    then show ?thesis using trunc_of_floor [OF e2(1), of k n2] k by simp
  next
    case False
    with r have r1: "1 \<le> r" by simp
    define x where "x = real_of_int us / 1000000"
    define v1 where "v1 = real_of_int n1 / real_of_int d1"
    define v2 where "v2 = real_of_int n2 / real_of_int d2"
    have x: "x = 60 * real_of_int k + real_of_int r / 1000000" by (simp add: x_def us)
    have xr: "1 / 1000000 \<le> real_of_int r / 1000000" "real_of_int r / 1000000 \<le> 60 - 1 / 1000000"
      using r1 r by simp_all
    have xb: "x < 2 ^ 51 / 1000000" using bound by (simp add: x_def)
    have kr: "0 \<le> real_of_int k" using k by simp
    from float_div_error [of us 1000000] pos
    have e1: "0 < d1" "\<bar>v1 - x\<bar> \<le> \<bar>x\<bar> / 2 ^ 53"
      unfolding n1_def d1_def v1_def x_def fval_def by simp_all
    have xpos: "0 < x" using pos by (simp add: x_def)
    from e1(2) xpos have "\<bar>v1 - x\<bar> \<le> x / 9007199254740992" by simp
    then have a1: "v1 - x \<le> x / 9007199254740992" "- (v1 - x) \<le> x / 9007199254740992"
      by (simp_all only: abs_le_iff)
    have v1pos: "0 < v1" using a1 xpos by linarith
    then have n1nz: "n1 \<noteq> 0" by (auto simp: v1_def)
    have d60: "0 < d1 * 60" using e1(1) by simp
    have quot: "real_of_int n1 / real_of_int (d1 * 60) = v1 / 60" by (simp add: v1_def)
    from float_div_error [OF n1nz d60]
    have e2: "0 < d2" "\<bar>v2 - v1 / 60\<bar> \<le> \<bar>v1 / 60\<bar> / 2 ^ 53"
      unfolding n2_def [symmetric] d2_def [symmetric] quot
      by (simp_all add: fval_def n2_def d2_def v2_def)
    from e2(2) v1pos have "\<bar>v2 - v1 / 60\<bar> \<le> (v1 / 60) / 9007199254740992" by simp
    then have a2: "v2 - v1 / 60 \<le> (v1 / 60) / 9007199254740992"
      "- (v2 - v1 / 60) \<le> (v1 / 60) / 9007199254740992"
      by (simp_all only: abs_le_iff)
    have xb': "x < 2251799813685248 / 1000000" using xb by simp
    have lo: "real_of_int k \<le> v2"
      using a1 a2 xpos v1pos x xr xb' kr by linarith
    have hi: "v2 < real_of_int k + 1"
      using a1 a2 xpos v1pos x xr xb' kr by linarith
    show ?thesis using trunc_of_floor [OF e2(1), of k n2] lo hi k by (simp add: v2_def)
  qed
  with wm show ?thesis by (simp add: k_def)
qed

lemma whole_minutes_exact:
  assumes "\<bar>us\<bar> < 2 ^ 51"
  shows "whole_minutes us = sgn us * (\<bar>us\<bar> div 60000000)"
proof (cases "0 \<le> us")
  case True
  with assms whole_minutes_nonneg [of us] show ?thesis by (cases "us = 0") (simp_all add: sgn_if)
next
  case False
  with assms whole_minutes_nonneg [of "- us"] whole_minutes_neg [of "- us"] show ?thesis
    by (simp add: sgn_if)
qed

lemma datetime_sub_naive:
  "utcoffset d = None \<Longrightarrow> datetime_sub (naive now) d = Inr (now - wall d)"
  by (simp add: datetime_sub_def comparable_def instant_def naive_def)

lemma whole_minutes_staged:
  assumes "float_div us 1000000 = (n1, d1)" and "float_div n1 (d1 * 60) = (n2, d2)"
  shows "whole_minutes us = sgn n2 * (\<bar>n2\<bar> div d2)"
  using assms by (simp add: whole_minutes_def)

text \<open>
  Beyond the bound of \<open>whole_minutes_exact\<close> the two roundings can reach the next
  minute: one microsecond before \<open>2\<^sup>2\<^sup>9\<close> minutes the result is \<open>2\<^sup>2\<^sup>9\<close>.
\<close>

lemma whole_minutes_rounds_up: "whole_minutes 32212254719999999 = 536870912"
proof -
  have a: "float_div 32212254719999999 1000000 = (8444249301319680, 262144)"
    by (simp add: float_eval)
  have b: "float_div 8444249301319680 (262144 * 60) = (4503599627370496, 8388608)"
    by (simp add: float_eval)
  from whole_minutes_staged [OF a b] show ?thesis by simp
qed

lemma stop_timer_result:
  assumes target: "stop_timer_entry time_entry_id tid s = Inr (k, entry)"
    and opn: "end_time entry = None"
    and nv: "utcoffset (start_time entry) = None"
    and tsk: "map_of (tasks_storage s) (task_id entry) = Some task"
    and bound: "\<bar>now - wall (start_time entry)\<bar> < 2 ^ 51"
  shows "stop_timer now time_entry_id tid s =
           (Inr (TimerStopped (title task)
                   (sgn (now - wall (start_time entry))
                      * (\<bar>now - wall (start_time entry)\<bar> div 60000000))
                   ((case actual_hours task of None \<Rightarrow> 0 | Some a \<Rightarrow> a)
                      + real_of_int (now - wall (start_time entry)) / 3600000000)),
            s\<lparr>time_entries_storage :=
                 AList.update k
                   (entry\<lparr>end_time := Some (naive now),
                          duration_minutes :=
                            Some (sgn (now - wall (start_time entry))
                                    * (\<bar>now - wall (start_time entry)\<bar> div 60000000))\<rparr>)
                   (time_entries_storage s),
               tasks_storage :=
                 AList.update (task_id entry)
                   (task\<lparr>actual_hours :=
                           Some ((case actual_hours task of None \<Rightarrow> 0 | Some a \<Rightarrow> a)
                                 + real_of_int (now - wall (start_time entry)) / 3600000000)\<rparr>)
                   (tasks_storage s)\<rparr>)"
proof -
  have hrs: "(case actual_hours task of None \<Rightarrow> hours_of d
              | Some a \<Rightarrow> if a \<noteq> 0 then a + hours_of d else hours_of d)
             = (case actual_hours task of None \<Rightarrow> 0 | Some a \<Rightarrow> a) + real_of_int d / 3600000000" for d
    by (simp add: hours_of_def split: option.splits)
  show ?thesis
    using target opn tsk
    by (simp add: stop_timer_def Let_def datetime_sub_naive [OF nv] whole_minutes_exact [OF bound] hrs)
qed

subsection \<open>Popping a list of keys\<close>

lemma foldl_delete_filter:
  "foldl (\<lambda>d k. AList.delete k d) al ks = filter (\<lambda>(k, v). k \<notin> set ks) al"
proof (induction ks arbitrary: al)
  case Nil
  then show ?case by simp
next
  case (Cons k ks)
  have "filter (\<lambda>(k', v). k' \<notin> set ks) (AList.delete k al)
        = filter (\<lambda>(k', v). k' \<notin> set (k # ks)) al"
    by (induction al) (auto simp: AList.delete_eq)
  with Cons.IH [of "AList.delete k al"] show ?case by simp
qed

lemma distinct_key_filter:
  assumes "distinct (map fst al)" and "(k, v) \<in> set al"
  shows "k \<in> set (map fst (filter P al)) \<longleftrightarrow> P (k, v)"
proof
  assume "k \<in> set (map fst (filter P al))"
  then obtain v' where v': "(k, v') \<in> set al" "P (k, v')" by auto
  with assms have "v' = v" by (meson eq_key_imp_eq_value)
  with v' show "P (k, v)" by simp
next
  assume "P (k, v)"
  with assms(2) show "k \<in> set (map fst (filter P al))" by force
qed

lemma pop_selected:
  assumes "distinct (map fst al)"
  shows "foldl (\<lambda>d k. AList.delete k d) al (map fst (filter P al)) = filter (\<lambda>x. \<not> P x) al"
proof -
  have "filter (\<lambda>(k, v). k \<notin> set (map fst (filter P al))) al = filter (\<lambda>x. \<not> P x) al"
  proof (rule filter_cong [OF refl])
    fix x assume x: "x \<in> set al"
    obtain k v where kv: "x = (k, v)" by (cases x)
    from distinct_key_filter [OF assms, of k v P] x kv
    show "(case x of (k, v) \<Rightarrow> k \<notin> set (map fst (filter P al))) = (\<not> P x)"
      by simp
  qed
  then show ?thesis by (simp only: foldl_delete_filter)
qed

lemma map_of_filter_distinct:
  assumes "distinct (map fst al)" and "(k, v) \<in> set al"
  shows "map_of (filter P al) k = (if P (k, v) then Some v else None)"
proof (cases "P (k, v)")
  case True
  have "distinct (map fst (filter P al))" using assms(1) by (simp add: distinct_map_filter)
  moreover have "(k, v) \<in> set (filter P al)" using True assms(2) by simp
  ultimately show ?thesis using True by simp
next
  case False
  have "k \<notin> fst ` set (filter P al)"
    using distinct_key_filter [OF assms, of P] False by simp
  then show ?thesis using False by (simp add: map_of_eq_None_iff)
qed

subsection \<open>Logging time\<close>

lemma timedelta_minutes_in_range:
  assumes "0 \<le> w" "w \<le> max_wall" "0 \<le> w + m * 60000000" "w + m * 60000000 \<le> max_wall"
  shows "timedelta_minutes m = Inr (m * 60000000)"
proof -
  have lo: "- max_wall \<le> m * 60000000" and hi: "m * 60000000 \<le> max_wall"
    using assms by linarith+
  have "- 3652059 \<le> (m * 60000000) div 86400000000"
    using lo unfolding max_wall_def by linarith
  moreover have "(m * 60000000) div 86400000000 \<le> 3652059"
    using hi unfolding max_wall_def by linarith
  ultimately show ?thesis by (simp add: timedelta_minutes_def Let_def)
qed

lemma log_time_stores:
  assumes tsk: "map_of (tasks_storage s) tid = Some task"
    and st: "parsed_start_time fromiso now start_arg = Some st"
    and r: "0 \<le> wall st" "wall st \<le> max_wall"
           "0 \<le> wall st + dur * 60000000" "wall st + dur * 60000000 \<le> max_wall"
  shows "log_time fromiso uuid now tid dur descr start_arg s =
           (Inr (TimeLogged (title task) dur
                   ((case actual_hours task of None \<Rightarrow> 0 | Some a \<Rightarrow> a) + real_of_int dur / 60)),
            s\<lparr>time_entries_storage :=
                 AList.update uuid
                   \<lparr>id_entry = uuid, task_id = tid, start_time = st,
                     end_time = Some (st\<lparr>wall := wall st + dur * 60000000\<rparr>),
                     description_entry = descr, duration_minutes = Some dur\<rparr>
                   (time_entries_storage s),
               tasks_storage :=
                 AList.update tid
                   (task\<lparr>actual_hours :=
                           Some ((case actual_hours task of None \<Rightarrow> 0 | Some a \<Rightarrow> a)
                                 + real_of_int dur / 60)\<rparr>)
                   (tasks_storage s)\<rparr>)"
proof -
  have hrs: "(case actual_hours task of None \<Rightarrow> real_of_int dur / 60
              | Some a \<Rightarrow> if a \<noteq> 0 then a + real_of_int dur / 60 else real_of_int dur / 60)
             = (case actual_hours task of None \<Rightarrow> 0 | Some a \<Rightarrow> a) + real_of_int dur / 60"
    by (simp split: option.splits)
  have add: "datetime_add st (dur * 60000000) = Inr (st\<lparr>wall := wall st + dur * 60000000\<rparr>)"
    using r by (simp add: datetime_add_def Let_def)
  show ?thesis
    using tsk st
    by (simp add: log_time_def Let_def timedelta_minutes_in_range [OF r] add hrs)
qed

lemmas iso_defs =
  fromisoformat_basic_def replace_Z_def parse_date_def parse_time_def parse_offset_def
  digit_value_def days_before_year_def days_before_month_def days_in_month_def is_leap_def

lemma iso_0900:
  "fromisoformat_basic (replace_Z ''2024-01-01T09:00:00Z'')
     = Some \<lparr>wall = 63839696400000000, utcoffset = Some 0\<rparr>"
  by (simp add: iso_defs Let_def)

lemma iso_0945:
  "fromisoformat_basic (replace_Z ''2024-01-01T09:45:00Z'')
     = Some \<lparr>wall = 63839699100000000, utcoffset = Some 0\<rparr>"
  by (simp add: iso_defs Let_def)

lemma iso_0830:
  "fromisoformat_basic (replace_Z ''2024-01-01T08:30:00Z'')
     = Some \<lparr>wall = 63839694600000000, utcoffset = Some 0\<rparr>"
  by (simp add: iso_defs Let_def)

subsection \<open>Reachable storages are well formed\<close>

lemma set_update_subset:
  "set (AList.update k v al) \<subseteq> insert (k, v) (set al)"
  by (induction al) auto

lemma entries_update_ok:
  assumes "list_all (entry_ok ts) (map snd al)" and "entry_ok ts v"
  shows "list_all (entry_ok ts) (map snd (AList.update k v al))"
  using assms set_update_subset [of k v al] by (auto simp: list_all_iff)

lemma entry_ok_tasks_update:
  assumes "map_of ts k \<noteq> None" and "entry_ok ts e"
  shows "entry_ok (AList.update k t ts) e"
  using assms by (auto simp: entry_ok_def update_conv')

lemma entry_ok_tasks_insert:
  assumes "entry_ok ts e"
  shows "entry_ok (AList.update k t ts) e"
  using assms by (auto simp: entry_ok_def update_conv')

lemma well_formed_tasks_update:
  assumes "well_formed s"
  shows "well_formed (s\<lparr>tasks_storage := AList.update k t (tasks_storage s)\<rparr>)"
  using assms
  by (auto simp: well_formed_def distinct_update list_all_iff intro: entry_ok_tasks_insert)

lemma well_formed_entries_update:
  assumes "well_formed s" and "entry_ok (tasks_storage s) e"
  shows "well_formed (s\<lparr>time_entries_storage := AList.update k e (time_entries_storage s)\<rparr>)"
  using assms by (simp add: well_formed_def distinct_update entries_update_ok)

lemma well_formed_init: "well_formed init_state"
  by (simp add: well_formed_def init_state_def)

lemma well_formed_create_task:
  "well_formed s \<Longrightarrow> well_formed (snd (create_task fromiso cfg uuid n1 n2 ti de pr ca du es ta pj asg s))"
  by (auto simp: create_task_def Let_def well_formed_tasks_update split: option.splits)

lemma well_formed_update_task:
  "well_formed s \<Longrightarrow> well_formed (snd (update_task fromiso now tid ti de pr st ca du es ac ta asg s))"
  by (auto simp: update_task_def Let_def well_formed_tasks_update split: option.splits)

lemma well_formed_delete_task:
  assumes "well_formed s" shows "well_formed (snd (delete_task tid s))"
proof (cases "map_of (tasks_storage s) tid")
  case None
  with assms show ?thesis by (simp add: delete_task_def)
next
  case (Some task)
  have d: "distinct (map fst (time_entries_storage s))"
    using assms by (simp add: well_formed_def)
  have eq: "snd (delete_task tid s) =
     s\<lparr>tasks_storage := AList.delete tid (tasks_storage s),
       time_entries_storage := filter (\<lambda>x. \<not> (case x of (k, e) \<Rightarrow> task_id e = tid)) (time_entries_storage s)\<rparr>"
    using Some pop_selected [OF d, of "\<lambda>(k, e). task_id e = tid"]
    by (simp add: delete_task_def Let_def)
  have "entry_ok (AList.delete tid (tasks_storage s)) e"
    if "entry_ok (tasks_storage s) e" "task_id e \<noteq> tid" for e
    using that by (simp add: entry_ok_def delete_conv')
  then show ?thesis
    unfolding eq using assms
    by (auto simp: well_formed_def distinct_delete distinct_map_filter list_all_iff)
qed

lemma well_formed_start_timer:
  "well_formed s \<Longrightarrow> well_formed (snd (start_timer uuid now tid de s))"
  by (auto simp: start_timer_def Let_def entry_ok_def naive_def
      intro!: well_formed_entries_update split: option.splits)

lemma well_formed_log_time:
  assumes "well_formed s" shows "well_formed (snd (log_time fromiso uuid now tid dur de st s))"
proof -
  have "well_formed (s\<lparr>time_entries_storage := AList.update uuid e (time_entries_storage s),
                       tasks_storage := AList.update tid t (tasks_storage s)\<rparr>)"
    if "map_of (tasks_storage s) tid \<noteq> None" "task_id e = tid" "end_time e \<noteq> None" for e t
  proof -
    have "entry_ok (tasks_storage s) e" using that by (simp add: entry_ok_def)
    from well_formed_tasks_update [OF well_formed_entries_update [OF assms this], of tid t uuid]
    show ?thesis by simp
  qed
  then show ?thesis
    using assms
    by (auto simp: log_time_def Let_def split: option.splits sum.splits)
qed

lemma entry_of_key:
  "map_of al k = Some e \<Longrightarrow> e \<in> set (map snd al)"
  by (force dest: map_of_SomeD)

lemma stop_timer_entry_stored:
  "stop_timer_entry eid tid s = Inr (k, e) \<Longrightarrow> e \<in> set (map snd (time_entries_storage s))"
  by (auto simp: stop_timer_entry_def split: option.splits dest: entry_of_key find_active_Some)
     (force dest: find_active_Some)

lemma well_formed_stop_timer:
  assumes "well_formed s" shows "well_formed (snd (stop_timer now eid tid s))"
proof (cases "stop_timer_entry eid tid s")
  case (Inl r)
  with assms show ?thesis by (simp add: stop_timer_def)
next
  case (Inr ke)
  obtain k e where ke: "ke = (k, e)" by (cases ke)
  have ok: "entry_ok (tasks_storage s) e"
    using stop_timer_entry_stored [of eid tid s k e] Inr ke assms
    by (auto simp: well_formed_def list_all_iff)
  have a: "well_formed (s\<lparr>time_entries_storage :=
              AList.update k (e\<lparr>end_time := Some d\<rparr>) (time_entries_storage s)\<rparr>)" for d
    using assms ok by (intro well_formed_entries_update) (simp_all add: entry_ok_def)
  have b: "well_formed (s\<lparr>time_entries_storage :=
              AList.update k (e\<lparr>end_time := Some d, duration_minutes := m\<rparr>) (time_entries_storage s)\<rparr>)" for d m
    using assms ok by (intro well_formed_entries_update) (simp_all add: entry_ok_def)
  have c: "well_formed (s\<lparr>time_entries_storage :=
              AList.update k (e\<lparr>end_time := Some d, duration_minutes := m\<rparr>) (time_entries_storage s),
              tasks_storage := AList.update k' t (tasks_storage s)\<rparr>)" for d m k' t
    using well_formed_tasks_update [OF b [where d = d and m = m], where k = k' and t = t] by simp
  show ?thesis
    using assms Inr ke a b c
    by (auto simp: stop_timer_def Let_def split: option.splits sum.splits)
qed

lemma well_formed_perform: "well_formed s \<Longrightarrow> well_formed (snd (perform fromiso op s))"
  by (cases op)
     (simp_all add: well_formed_create_task well_formed_update_task well_formed_delete_task
        well_formed_start_timer well_formed_stop_timer well_formed_log_time)

lemma well_formed_run: "well_formed s \<Longrightarrow> well_formed (run fromiso ops s)"
  by (induction ops arbitrary: s) (simp_all add: well_formed_perform)

lemma reachable_well_formed: "well_formed (run fromiso ops init_state)"
  by (rule well_formed_run [OF well_formed_init])

subsection \<open>What the sort and the slice of \<open>list_tasks\<close> do\<close>

lemma sort_tasks_descending:
  assumes "sort_tasks ts = Inr rs"
  shows "sorted (rev (map order_key rs)) \<and> set rs = set ts \<and> length rs = length ts"
proof -
  from assms have rs: "rs = rev (sort_key order_key (rev ts))"
    by (simp add: sort_tasks_def split: if_splits)
  show ?thesis unfolding rs by (simp add: rev_map)
qed

lemma greater_key_listed_first:
  assumes srt: "sort_tasks ts = Inr rs"
    and i: "i < length rs" and j: "j < length rs"
    and key: "order_key (rs ! j) < order_key (rs ! i)"
  shows "i < j"
proof (rule ccontr)
  assume "\<not> i < j"
  then have ji: "j \<le> i" by simp
  have "sorted (rev (map order_key rs))" using sort_tasks_descending [OF srt] by simp
  from sorted_rev_nth_mono [OF this ji] i have "map order_key rs ! i \<le> map order_key rs ! j"
    by simp
  with i j have "order_key (rs ! i) \<le> order_key (rs ! j)" by simp
  with key show False by simp
qed

lemma higher_rank_listed_first:
  assumes "sort_tasks ts = Inr rs" and "i < length rs" and "j < length rs"
    and "priority_order (priority (rs ! j)) < priority_order (priority (rs ! i))"
  shows "i < j"
  using greater_key_listed_first [OF assms(1-3)] assms(4) by (simp add: order_key_def)

lemma later_due_date_listed_first:
  assumes "sort_tasks ts = Inr rs" and "i < length rs" and "j < length rs"
    and "priority (rs ! j) = priority (rs ! i)"
    and "instant (due_key (rs ! j)) < instant (due_key (rs ! i))"
  shows "i < j"
  using greater_key_listed_first [OF assms(1-3)] assms(4,5) by (simp add: order_key_def)

lemma slice_to_nonneg: "0 \<le> n \<Longrightarrow> slice_to xs n = take (nat n) xs"
  by (simp add: slice_to_def)

lemma slice_to_negative: "n < 0 \<Longrightarrow> slice_to xs n = take (length xs - nat (- n)) xs"
  by (simp add: slice_to_def)

section \<open>The productivity ratio\<close>

text \<open>
  Claim C6. Whenever \<open>work_hours_per_day\<close> and \<open>days\<close> are positive, the productivity
  ratio is \<open>((total_minutes / 60) / (work_hours_per_day * days)) * 100\<close>. For 480
  minutes over 7 days at 8 hours a day it is \<open>(8 / 56) * 100\<close>, which is 14.3 when
  rounded to one decimal.
\<close>

theorem productivity_ratio_formula:
  "(0 < w \<and> 0 < d \<longrightarrow>
      productivity_ratio m d w = ((real_of_int m / 60) / (w * real_of_int d)) * 100)
   \<and> productivity_ratio 480 7 8 = (8 / 56) * 100
   \<and> \<bar>productivity_ratio 480 7 8 - 14.3\<bar> < 0.05"
proof (intro conjI impI)
  assume pos: "0 < w \<and> 0 < d"
  then have "0 < w * real_of_int d" by simp
  then show "productivity_ratio m d w = ((real_of_int m / 60) / (w * real_of_int d)) * 100"
    by (simp add: productivity_ratio_def Let_def)
next
  show "productivity_ratio 480 7 8 = (8 / 56) * 100"
    by (simp add: productivity_ratio_def Let_def)
next
  show "\<bar>productivity_ratio 480 7 8 - 14.3\<bar> < 0.05"
    by (simp add: productivity_ratio_def Let_def)
qed

theorem productivity_ratio_formula_witness:
  "(0::real) < 8 \<and> (0::int) < 7 \<and> productivity_ratio 480 7 8 = 100 / 7"
  using productivity_ratio_formula [of 8 7 480] by simp

section \<open>At most one open timer per task\<close>

text \<open>
  Claim C1 (invariant I1). After any sequence of \<^verbatim>\<open>create_task\<close>, \<^verbatim>\<open>start_timer\<close>,
  \<^verbatim>\<open>stop_timer\<close>, \<^verbatim>\<open>log_time\<close>, \<^verbatim>\<open>update_task\<close> and \<^verbatim>\<open>delete_task\<close> calls
  on the empty storage, every task id has at most one time entry without an end time.
  In any storage, \<^verbatim>\<open>start_timer\<close> on a task whose open entry is \<open>e\<close> stores nothing
  and answers with the start time of \<open>e\<close>.
\<close>

theorem at_most_one_open_timer:
  "length (open_entries tid (run fromiso ops init_state)) \<le> 1
   \<and> (map_of (tasks_storage s) tid = Some task \<and> open_entries tid s = [e] \<longrightarrow>
        start_timer uuid now tid descr s
          = (Inr (TimerAlreadyRunning (title task) (start_time e)), s))"
proof (intro conjI impI)
  have "I1 (run fromiso ops init_state)" by (rule I1_run [OF I1_init])
  then show "length (open_entries tid (run fromiso ops init_state)) \<le> 1"
    by (simp add: I1_def)
next
  assume h: "map_of (tasks_storage s) tid = Some task \<and> open_entries tid s = [e]"
  then obtain k where "find_active tid (time_entries_storage s) = Some (k, e)"
    using find_active_opens [of tid "time_entries_storage s" e "[]"]
    by (auto simp: open_entries_def)
  with h show "start_timer uuid now tid descr s
          = (Inr (TimerAlreadyRunning (title task) (start_time e)), s)"
    by (simp add: start_timer_def)
qed

lemma running_example_state:
  "run fromisoformat_basic running_example init_state =
     \<lparr>tasks_storage =
        [(''t1'', \<lparr>id_task = ''t1'', title = ''Write spec'', description = None, priority = HIGH,
                   status = TODO, category = OTHER, due_date = None, created_at = naive 0,
                   updated_at = naive 0, estimated_hours = None, actual_hours = None, tags = [],
                   dependencies = [], assignee = None, project_id = None\<rparr>)],
      projects_storage = [],
      time_entries_storage =
        [(''e1'', \<lparr>id_entry = ''e1'', task_id = ''t1'', start_time = naive 100, end_time = None,
                   description_entry = None, duration_minutes = None\<rparr>)]\<rparr>"
  by (simp add: running_example_def init_state_def create_task_def start_timer_def
        default_config_def nonempty_def Let_def)

theorem at_most_one_open_timer_witness:
  "length (open_entries ''t1''
      (run fromisoformat_basic (running_example @ [StartTimer ''e2'' 200 ''t1'' None]) init_state)) \<le> 1
   \<and> start_timer ''e2'' 200 ''t1'' None (run fromisoformat_basic running_example init_state)
       = (Inr (TimerAlreadyRunning ''Write spec'' (naive 100)),
          run fromisoformat_basic running_example init_state)"
  using at_most_one_open_timer [of "''t1''" fromisoformat_basic
      "running_example @ [StartTimer ''e2'' 200 ''t1'' None]"
      "run fromisoformat_basic running_example init_state"
      "\<lparr>id_task = ''t1'', title = ''Write spec'', description = None, priority = HIGH,
                   status = TODO, category = OTHER, due_date = None, created_at = naive 0,
                   updated_at = naive 0, estimated_hours = None, actual_hours = None, tags = [],
                   dependencies = [], assignee = None, project_id = None\<rparr>"
      "\<lparr>id_entry = ''e1'', task_id = ''t1'', start_time = naive 100, end_time = None,
                   description_entry = None, duration_minutes = None\<rparr>"
      "''e2''" 200 None]
  by (simp add: running_example_state open_entries_def opens_def is_open_def)

section \<open>Stopping a timer\<close>

lemma backward_clock_example_state:
  "run fromisoformat_basic backward_clock_example init_state =
     \<lparr>tasks_storage =
        [(''t1'', \<lparr>id_task = ''t1'', title = ''Write spec'', description = None, priority = HIGH,
                   status = TODO, category = OTHER, due_date = None, created_at = naive 0,
                   updated_at = naive 0, estimated_hours = None, actual_hours = None, tags = [],
                   dependencies = [], assignee = None, project_id = None\<rparr>)],
      projects_storage = [],
      time_entries_storage =
        [(''e1'', \<lparr>id_entry = ''e1'', task_id = ''t1'', start_time = naive 90000000,
                   end_time = None, description_entry = None, duration_minutes = None\<rparr>)]\<rparr>"
  by (simp add: backward_clock_example_def init_state_def create_task_def start_timer_def
        default_config_def nonempty_def Let_def)

text \<open>
  Claim C2 says that \<^verbatim>\<open>stop_timer\<close> sets \<open>duration_minutes\<close> to the floor of the
  elapsed minutes. \<^verbatim>\<open>int\<close> truncates towards zero: when the clock reads 90 seconds
  less at the stop than it did at the start, the elapsed time is -1.5 minutes, its
  floor is -2, and the stored duration is -1.
\<close>

theorem stop_timer_floor_counterexample:
  "fst (stop_timer 0 None (Some ''t1'') (run fromisoformat_basic backward_clock_example init_state))
     = Inr (TimerStopped ''Write spec'' (- 1) (- (1 / 40)))
   \<and> map_option duration_minutes
        (map_of (time_entries_storage
           (snd (stop_timer 0 None (Some ''t1'')
                   (run fromisoformat_basic backward_clock_example init_state)))) ''e1'')
       = Some (Some (- 1))
   \<and> \<lfloor>real_of_int (0 - 90000000) / 60000000\<rfloor> = - 2"
  by (simp add: backward_clock_example_state stop_timer_def stop_timer_entry_def nonempty_def
        Let_def datetime_sub_def comparable_def instant_def naive_def whole_minutes_exact
        hours_of_def)

text \<open>
  Claim C2 as amended. When \<^verbatim>\<open>stop_timer\<close> targets an existing open entry (by its
  id, or as the first open entry of a task id) and the elapsed time is below \<open>2\<^sup>5\<^sup>1\<close>
  microseconds (some 71 years) in magnitude, it sets the end time to now, sets
  \<open>duration_minutes\<close> to the elapsed minutes truncated towards zero, which is their
  floor when the clock did not go back, and adds the elapsed hours to the task's
  \<open>actual_hours\<close> (to 0 when that field is unset). In every storage reached from the
  empty one, an open entry has a naive start time and its task is stored
  (\<open>reachable_well_formed\<close>).
\<close>

theorem stop_timer_accumulates:
  assumes target: "stop_timer_entry time_entry_id tid s = Inr (k, entry)"
    and opn: "end_time entry = None"
    and nv: "utcoffset (start_time entry) = None"
    and tsk: "map_of (tasks_storage s) (task_id entry) = Some task"
    and bound: "\<bar>now - wall (start_time entry)\<bar> < 2 ^ 51"
  shows "stop_timer now time_entry_id tid s =
           (Inr (TimerStopped (title task)
                   (sgn (now - wall (start_time entry))
                      * (\<bar>now - wall (start_time entry)\<bar> div 60000000))
                   ((case actual_hours task of None \<Rightarrow> 0 | Some a \<Rightarrow> a)
                      + real_of_int (now - wall (start_time entry)) / 3600000000)),
            s\<lparr>time_entries_storage :=
                 AList.update k
                   (entry\<lparr>end_time := Some (naive now),
                          duration_minutes :=
                            Some (sgn (now - wall (start_time entry))
                                    * (\<bar>now - wall (start_time entry)\<bar> div 60000000))\<rparr>)
                   (time_entries_storage s),
               tasks_storage :=
                 AList.update (task_id entry)
                   (task\<lparr>actual_hours :=
                           Some ((case actual_hours task of None \<Rightarrow> 0 | Some a \<Rightarrow> a)
                                 + real_of_int (now - wall (start_time entry)) / 3600000000)\<rparr>)
                   (tasks_storage s)\<rparr>)
         \<and> (wall (start_time entry) \<le> now \<longrightarrow>
               sgn (now - wall (start_time entry))
                 * (\<bar>now - wall (start_time entry)\<bar> div 60000000)
               = (now - wall (start_time entry)) div 60000000)"
proof
  show "stop_timer now time_entry_id tid s =
           (Inr (TimerStopped (title task)
                   (sgn (now - wall (start_time entry))
                      * (\<bar>now - wall (start_time entry)\<bar> div 60000000))
                   ((case actual_hours task of None \<Rightarrow> 0 | Some a \<Rightarrow> a)
                      + real_of_int (now - wall (start_time entry)) / 3600000000)),
            s\<lparr>time_entries_storage :=
                 AList.update k
                   (entry\<lparr>end_time := Some (naive now),
                          duration_minutes :=
                            Some (sgn (now - wall (start_time entry))
                                    * (\<bar>now - wall (start_time entry)\<bar> div 60000000))\<rparr>)
                   (time_entries_storage s),
               tasks_storage :=
                 AList.update (task_id entry)
                   (task\<lparr>actual_hours :=
                           Some ((case actual_hours task of None \<Rightarrow> 0 | Some a \<Rightarrow> a)
                                 + real_of_int (now - wall (start_time entry)) / 3600000000)\<rparr>)
                   (tasks_storage s)\<rparr>)"
    by (rule stop_timer_result [OF target opn nv tsk bound])
next
  show "wall (start_time entry) \<le> now \<longrightarrow>
               sgn (now - wall (start_time entry))
                 * (\<bar>now - wall (start_time entry)\<bar> div 60000000)
               = (now - wall (start_time entry)) div 60000000"
    by (cases "now = wall (start_time entry)") (auto simp: sgn_if)
qed

lemma stopped_example_state:
  "stopped_example =
     \<lparr>tasks_storage =
        [(''t1'', \<lparr>id_task = ''t1'', title = ''Write spec'', description = None, priority = HIGH,
                   status = TODO, category = OTHER, due_date = None, created_at = naive 0,
                   updated_at = naive 0, estimated_hours = None, actual_hours = Some (3 / 2),
                   tags = [], dependencies = [], assignee = None, project_id = None\<rparr>)],
      projects_storage = [],
      time_entries_storage =
        [(''e1'', \<lparr>id_entry = ''e1'', task_id = ''t1'', start_time = naive 100,
                   end_time = Some (naive 5400000100), description_entry = None,
                   duration_minutes = Some 90\<rparr>)]\<rparr>"
  by (simp add: stopped_example_def running_example_state stop_timer_def stop_timer_entry_def
        nonempty_def Let_def datetime_sub_def comparable_def instant_def naive_def
        whole_minutes_exact hours_of_def)

lemma restarted_example_state:
  "restarted_example =
     \<lparr>tasks_storage =
        [(''t1'', \<lparr>id_task = ''t1'', title = ''Write spec'', description = None, priority = HIGH,
                   status = TODO, category = OTHER, due_date = None, created_at = naive 0,
                   updated_at = naive 0, estimated_hours = None, actual_hours = Some (3 / 2),
                   tags = [], dependencies = [], assignee = None, project_id = None\<rparr>)],
      projects_storage = [],
      time_entries_storage =
        [(''e1'', \<lparr>id_entry = ''e1'', task_id = ''t1'', start_time = naive 100,
                   end_time = Some (naive 5400000100), description_entry = None,
                   duration_minutes = Some 90\<rparr>),
         (''e2'', \<lparr>id_entry = ''e2'', task_id = ''t1'', start_time = naive 6000000000,
                   end_time = None, description_entry = None, duration_minutes = None\<rparr>)]\<rparr>"
  by (simp add: restarted_example_def stopped_example_state start_timer_def Let_def)

theorem stop_timer_accumulates_witness:
  "stop_timer 5400000100 None (Some ''t1'') (run fromisoformat_basic running_example init_state)
     = (Inr (TimerStopped ''Write spec'' 90 (3 / 2)), stopped_example)
   \<and> fst (stop_timer 7800000000 (Some ''e2'') None restarted_example)
       = Inr (TimerStopped ''Write spec'' 30 2)
   \<and> map (\<lambda>(k, t). actual_hours t)
        (tasks_storage (snd (stop_timer 7800000000 (Some ''e2'') None restarted_example)))
       = [Some 2]
   \<and> map (\<lambda>(k, e). duration_minutes e)
        (time_entries_storage (snd (stop_timer 7800000000 (Some ''e2'') None restarted_example)))
       = [Some 90, Some 30]"
  using stop_timer_accumulates [of None "Some ''t1''"
      "run fromisoformat_basic running_example init_state" "''e1''"
      "\<lparr>id_entry = ''e1'', task_id = ''t1'', start_time = naive 100, end_time = None,
        description_entry = None, duration_minutes = None\<rparr>"
      "\<lparr>id_task = ''t1'', title = ''Write spec'', description = None, priority = HIGH,
        status = TODO, category = OTHER, due_date = None, created_at = naive 0,
        updated_at = naive 0, estimated_hours = None, actual_hours = None, tags = [],
        dependencies = [], assignee = None, project_id = None\<rparr>"
      5400000100]
    stop_timer_accumulates [of "Some ''e2''" None restarted_example "''e2''"
      "\<lparr>id_entry = ''e2'', task_id = ''t1'', start_time = naive 6000000000, end_time = None,
        description_entry = None, duration_minutes = None\<rparr>"
      "\<lparr>id_task = ''t1'', title = ''Write spec'', description = None, priority = HIGH,
        status = TODO, category = OTHER, due_date = None, created_at = naive 0,
        updated_at = naive 0, estimated_hours = None, actual_hours = Some (3 / 2), tags = [],
        dependencies = [], assignee = None, project_id = None\<rparr>"
      7800000000]
  by (simp add: running_example_state stopped_example_state restarted_example_state
        stop_timer_entry_def nonempty_def naive_def)

section \<open>Deleting a task\<close>

text \<open>
  Claim C3. \<^verbatim>\<open>delete_task\<close> on a stored task removes the task and exactly the time
  entries that carry its id, keeps every other entry and every project, and reports the
  number of entries it removed. Afterwards the task id and the ids of the removed
  entries are not found: \<^verbatim>\<open>get_task_details\<close> answers that the task is not found and
  \<^verbatim>\<open>stop_timer\<close> that the entry is not found. The keys of a dictionary are distinct
  (\<open>reachable_well_formed\<close>).
\<close>

theorem delete_task_cascade:
  assumes tsk: "map_of (tasks_storage s) tid = Some task"
    and dist: "distinct (map fst (time_entries_storage s))"
  shows "delete_task tid s =
           (Inr (TaskDeleted (title task)
                   (length (filter (\<lambda>(k, e). task_id e = tid) (time_entries_storage s)))),
            s\<lparr>tasks_storage := AList.delete tid (tasks_storage s),
              time_entries_storage :=
                filter (\<lambda>(k, e). task_id e \<noteq> tid) (time_entries_storage s)\<rparr>)
         \<and> projects_storage (snd (delete_task tid s)) = projects_storage s
         \<and> map_of (tasks_storage (snd (delete_task tid s))) tid = None
         \<and> get_task_details tid (snd (delete_task tid s))
             = (Inr (TaskNotFound tid), snd (delete_task tid s))
         \<and> (\<forall>(k, e) \<in> set (time_entries_storage s).
               if task_id e = tid
               then map_of (time_entries_storage (snd (delete_task tid s))) k = None
                    \<and> (k \<noteq> [] \<longrightarrow>
                          stop_timer now (Some k) sel (snd (delete_task tid s))
                            = (Inr (TimeEntryNotFound k), snd (delete_task tid s)))
               else map_of (time_entries_storage (snd (delete_task tid s))) k = Some e)"
proof -
  let ?s' = "s\<lparr>tasks_storage := AList.delete tid (tasks_storage s),
              time_entries_storage :=
                filter (\<lambda>(k, e). task_id e \<noteq> tid) (time_entries_storage s)\<rparr>"
  have flt: "filter (\<lambda>x. \<not> (case x of (k, e) \<Rightarrow> task_id e = tid)) (time_entries_storage s)
             = filter (\<lambda>(k, e). task_id e \<noteq> tid) (time_entries_storage s)"
    by (rule filter_cong) auto
  have eq: "delete_task tid s =
           (Inr (TaskDeleted (title task)
                   (length (filter (\<lambda>(k, e). task_id e = tid) (time_entries_storage s)))), ?s')"
    using tsk pop_selected [OF dist, of "\<lambda>(k, e). task_id e = tid"] flt
    by (simp add: delete_task_def Let_def)
  have s': "snd (delete_task tid s) = ?s'" by (simp add: eq)
  have none: "map_of (tasks_storage ?s') tid = None" by (simp add: delete_conv')
  have look: "map_of (time_entries_storage ?s') k = (if task_id e \<noteq> tid then Some e else None)"
    if "(k, e) \<in> set (time_entries_storage s)" for k e
    using map_of_filter_distinct [OF dist that, of "\<lambda>(k, e). task_id e \<noteq> tid"] by simp
  have stop: "stop_timer now (Some k) sel ?s' = (Inr (TimeEntryNotFound k), ?s')"
    if "(k, e) \<in> set (time_entries_storage s)" "task_id e = tid" "k \<noteq> []" for k e
    using look [OF that(1)] that(2,3)
    by (simp add: stop_timer_def stop_timer_entry_def nonempty_def)
  show ?thesis
    unfolding s'
    using eq none look stop
    by (auto simp: get_task_details_def)
qed

theorem delete_task_cascade_witness:
  "delete_task ''t1'' two_tasks_example =
     (Inr (TaskDeleted ''First'' 2),
      two_tasks_example\<lparr>tasks_storage := [(''t2'', plain_task ''t2'' ''Second'')],
                         time_entries_storage := [(''e2'', closed_entry ''e2'' ''t2'')]\<rparr>)
   \<and> get_task_details ''t1'' (snd (delete_task ''t1'' two_tasks_example))
       = (Inr (TaskNotFound ''t1''), snd (delete_task ''t1'' two_tasks_example))
   \<and> stop_timer 5 (Some ''e3'') None (snd (delete_task ''t1'' two_tasks_example))
       = (Inr (TimeEntryNotFound ''e3''), snd (delete_task ''t1'' two_tasks_example))
   \<and> map_of (time_entries_storage (snd (delete_task ''t1'' two_tasks_example))) ''e2''
       = Some (closed_entry ''e2'' ''t2'')"
proof -
  have t: "map_of (tasks_storage two_tasks_example) ''t1'' = Some (plain_task ''t1'' ''First'')"
    by (simp add: two_tasks_example_def)
  have d: "distinct (map fst (time_entries_storage two_tasks_example))"
    by (simp add: two_tasks_example_def)
  note c = delete_task_cascade [OF t d, of 5 None]
  have eq: "delete_task ''t1'' two_tasks_example =
     (Inr (TaskDeleted ''First'' 2),
      two_tasks_example\<lparr>tasks_storage := [(''t2'', plain_task ''t2'' ''Second'')],
                         time_entries_storage := [(''e2'', closed_entry ''e2'' ''t2'')]\<rparr>)"
    using c [THEN conjunct1]
    by (simp add: two_tasks_example_def plain_task_def closed_entry_def)
  have e3: "(''e3'', closed_entry ''e3'' ''t1'') \<in> set (time_entries_storage two_tasks_example)"
    and e2: "(''e2'', closed_entry ''e2'' ''t2'') \<in> set (time_entries_storage two_tasks_example)"
    by (simp_all add: two_tasks_example_def)
  from c have ball: "\<forall>(k, e) \<in> set (time_entries_storage two_tasks_example).
               if task_id e = ''t1''
               then map_of (time_entries_storage (snd (delete_task ''t1'' two_tasks_example))) k = None
                    \<and> (k \<noteq> [] \<longrightarrow>
                          stop_timer 5 (Some k) None (snd (delete_task ''t1'' two_tasks_example))
                            = (Inr (TimeEntryNotFound k), snd (delete_task ''t1'' two_tasks_example)))
               else map_of (time_entries_storage (snd (delete_task ''t1'' two_tasks_example))) k = Some e"
    by blast
  from bspec [OF ball e3] have s3: "stop_timer 5 (Some ''e3'') None (snd (delete_task ''t1'' two_tasks_example))
       = (Inr (TimeEntryNotFound ''e3''), snd (delete_task ''t1'' two_tasks_example))"
    by (simp add: closed_entry_def)
  from bspec [OF ball e2] have s2: "map_of (time_entries_storage (snd (delete_task ''t1'' two_tasks_example))) ''e2''
       = Some (closed_entry ''e2'' ''t2'')"
    by (simp add: closed_entry_def)
  from c have g: "get_task_details ''t1'' (snd (delete_task ''t1'' two_tasks_example))
       = (Inr (TaskNotFound ''t1''), snd (delete_task ''t1'' two_tasks_example))"
    by blast
  from eq g s3 s2 show ?thesis by blast
qed

section \<open>Logging time manually\<close>

text \<open>
  Claim C5. \<^verbatim>\<open>log_time\<close> on a stored task, with a start time that parses (or none)
  and an end time inside the range of \<^verbatim>\<open>datetime\<close>, stores a closed entry with
  \<open>end_time = start_time + duration_minutes\<close> and \<open>duration_minutes\<close> as given, and
  adds \<open>duration_minutes / 60\<close> to the task's \<open>actual_hours\<close> (to 0 when that field
  is unset). Nothing is assumed about the time entries already stored, so a running
  timer of the task changes nothing.
\<close>

theorem log_time_closed_entry:
  assumes tsk: "map_of (tasks_storage s) tid = Some task"
    and st: "parsed_start_time fromiso now start_arg = Some st"
    and r: "0 \<le> wall st" "wall st \<le> max_wall"
           "0 \<le> wall st + dur * 60000000" "wall st + dur * 60000000 \<le> max_wall"
  shows "fst (log_time fromiso uuid now tid dur descr start_arg s)
           = Inr (TimeLogged (title task) dur
                   ((case actual_hours task of None \<Rightarrow> 0 | Some a \<Rightarrow> a) + real_of_int dur / 60))
         \<and> map_of (time_entries_storage (snd (log_time fromiso uuid now tid dur descr start_arg s))) uuid
             = Some \<lparr>id_entry = uuid, task_id = tid, start_time = st,
                     end_time = Some (st\<lparr>wall := wall st + dur * 60000000\<rparr>),
                     description_entry = descr, duration_minutes = Some dur\<rparr>
         \<and> map_of (tasks_storage (snd (log_time fromiso uuid now tid dur descr start_arg s))) tid
             = Some (task\<lparr>actual_hours :=
                            Some ((case actual_hours task of None \<Rightarrow> 0 | Some a \<Rightarrow> a)
                                  + real_of_int dur / 60)\<rparr>)"
  by (simp add: log_time_stores [OF tsk st r] update_conv')

theorem log_time_closed_entry_witness:
  "fst (log_time fromisoformat_basic ''e9'' 7 ''t1'' 45 None (Some ''2024-01-01T09:00:00Z'')
          (run fromisoformat_basic running_example init_state))
     = Inr (TimeLogged ''Write spec'' 45 (3 / 4))
   \<and> map_option end_time
        (map_of (time_entries_storage
           (snd (log_time fromisoformat_basic ''e9'' 7 ''t1'' 45 None (Some ''2024-01-01T09:00:00Z'')
                   (run fromisoformat_basic running_example init_state)))) ''e9'')
       = Some (fromisoformat_basic (replace_Z ''2024-01-01T09:45:00Z''))
   \<and> map_option duration_minutes
        (map_of (time_entries_storage
           (snd (log_time fromisoformat_basic ''e9'' 7 ''t1'' 45 None (Some ''2024-01-01T09:00:00Z'')
                   (run fromisoformat_basic running_example init_state)))) ''e9'')
       = Some (Some 45)
   \<and> map_option actual_hours
        (map_of (tasks_storage
           (snd (log_time fromisoformat_basic ''e9'' 7 ''t1'' 45 None (Some ''2024-01-01T09:00:00Z'')
                   (run fromisoformat_basic running_example init_state)))) ''t1'')
       = Some (Some (3 / 4))"
proof -
  let ?s = "run fromisoformat_basic running_example init_state"
  let ?st = "\<lparr>wall = 63839696400000000, utcoffset = Some 0\<rparr>"
  have tsk: "map_of (tasks_storage ?s) ''t1''
             = Some \<lparr>id_task = ''t1'', title = ''Write spec'', description = None, priority = HIGH,
                   status = TODO, category = OTHER, due_date = None, created_at = naive 0,
                   updated_at = naive 0, estimated_hours = None, actual_hours = None, tags = [],
                   dependencies = [], assignee = None, project_id = None\<rparr>"
    by (simp add: running_example_state)
  have st: "parsed_start_time fromisoformat_basic 7 (Some ''2024-01-01T09:00:00Z'') = Some ?st"
    unfolding parsed_start_time_def nonempty_def using iso_0900 by simp
  have r: "0 \<le> wall ?st" "wall ?st \<le> max_wall" "0 \<le> wall ?st + 45 * 60000000"
    "wall ?st + 45 * 60000000 \<le> max_wall"
    by (simp_all add: max_wall_def)
  from log_time_closed_entry [OF tsk st r, of "''e9''" None] show ?thesis
    by (simp add: iso_0945)
qed

section \<open>Logging a negative duration\<close>

text \<open>
  Claim C9 says that \<^verbatim>\<open>log_time\<close> rejects a negative \<open>duration_minutes\<close> and leaves
  the storage as it was. The function has no check of the duration: logging -30 minutes
  returns the "time logged" response, stores an entry and takes half an hour off the
  task's \<open>actual_hours\<close>.
\<close>

theorem log_time_negative_counterexample:
  "fst (log_time fromisoformat_basic ''e9'' 7 ''t1'' (- 30) None (Some ''2024-01-01T09:00:00Z'')
          stopped_example)
     = Inr (TimeLogged ''Write spec'' (- 30) 1)
   \<and> map_option actual_hours (map_of (tasks_storage stopped_example) ''t1'') = Some (Some (3 / 2))
   \<and> map_option actual_hours
        (map_of (tasks_storage
           (snd (log_time fromisoformat_basic ''e9'' 7 ''t1'' (- 30) None
                   (Some ''2024-01-01T09:00:00Z'') stopped_example))) ''t1'')
       = Some (Some 1)
   \<and> map fst (time_entries_storage
         (snd (log_time fromisoformat_basic ''e9'' 7 ''t1'' (- 30) None
                 (Some ''2024-01-01T09:00:00Z'') stopped_example)))
       = [''e1'', ''e9'']
   \<and> map fst (time_entries_storage stopped_example) = [''e1'']"
  by (simp add: stopped_example_state log_time_def parsed_start_time_def nonempty_def iso_0900
        timedelta_minutes_def datetime_add_def max_wall_def Let_def)

text \<open>
  Claim C9 as amended. \<^verbatim>\<open>log_time\<close> with a negative \<open>duration_minutes\<close>, on a
  stored task, with a start time that parses (or none) and an end time inside the range
  of \<^verbatim>\<open>datetime\<close>, is not rejected: it returns the "time logged" response, stores a
  closed entry with the duration as given and an end time before the start time, and
  adds the negative \<open>duration_minutes / 60\<close> to the task's \<open>actual_hours\<close>.
\<close>

theorem log_time_negative_accepted:
  assumes neg: "dur < 0"
    and tsk: "map_of (tasks_storage s) tid = Some task"
    and st: "parsed_start_time fromiso now start_arg = Some st"
    and r: "wall st \<le> max_wall" "0 \<le> wall st + dur * 60000000"
  shows "fst (log_time fromiso uuid now tid dur descr start_arg s)
           = Inr (TimeLogged (title task) dur
                   ((case actual_hours task of None \<Rightarrow> 0 | Some a \<Rightarrow> a) + real_of_int dur / 60))
         \<and> map_of (time_entries_storage (snd (log_time fromiso uuid now tid dur descr start_arg s))) uuid
             = Some \<lparr>id_entry = uuid, task_id = tid, start_time = st,
                     end_time = Some (st\<lparr>wall := wall st + dur * 60000000\<rparr>),
                     description_entry = descr, duration_minutes = Some dur\<rparr>
         \<and> wall st + dur * 60000000 < wall st
         \<and> map_of (tasks_storage (snd (log_time fromiso uuid now tid dur descr start_arg s))) tid
             = Some (task\<lparr>actual_hours :=
                            Some ((case actual_hours task of None \<Rightarrow> 0 | Some a \<Rightarrow> a)
                                  + real_of_int dur / 60)\<rparr>)
         \<and> (case actual_hours task of None \<Rightarrow> 0 | Some a \<Rightarrow> a) + real_of_int dur / 60
             < (case actual_hours task of None \<Rightarrow> 0 | Some a \<Rightarrow> a)"
proof -
  have r': "0 \<le> wall st" "wall st \<le> max_wall" "0 \<le> wall st + dur * 60000000"
    "wall st + dur * 60000000 \<le> max_wall"
    using neg r by simp_all
  show ?thesis
    using neg by (simp add: log_time_stores [OF tsk st r'] update_conv')
qed

theorem log_time_negative_accepted_witness:
  "fst (log_time fromisoformat_basic ''e9'' 7 ''t1'' (- 30) None (Some ''2024-01-01T09:00:00Z'')
          stopped_example)
     = Inr (TimeLogged ''Write spec'' (- 30) 1)
   \<and> map_option end_time
        (map_of (time_entries_storage
           (snd (log_time fromisoformat_basic ''e9'' 7 ''t1'' (- 30) None
                   (Some ''2024-01-01T09:00:00Z'') stopped_example))) ''e9'')
       = Some (fromisoformat_basic (replace_Z ''2024-01-01T08:30:00Z''))
   \<and> map_option actual_hours
        (map_of (tasks_storage
           (snd (log_time fromisoformat_basic ''e9'' 7 ''t1'' (- 30) None
                   (Some ''2024-01-01T09:00:00Z'') stopped_example))) ''t1'')
       = Some (Some 1)"
proof -
  let ?st = "\<lparr>wall = 63839696400000000, utcoffset = Some 0\<rparr>"
  have neg: "(- 30 :: int) < 0" by simp
  have tsk: "map_of (tasks_storage stopped_example) ''t1''
             = Some \<lparr>id_task = ''t1'', title = ''Write spec'', description = None, priority = HIGH,
                   status = TODO, category = OTHER, due_date = None, created_at = naive 0,
                   updated_at = naive 0, estimated_hours = None, actual_hours = Some (3 / 2),
                   tags = [], dependencies = [], assignee = None, project_id = None\<rparr>"
    by (simp add: stopped_example_state)
  have st: "parsed_start_time fromisoformat_basic 7 (Some ''2024-01-01T09:00:00Z'') = Some ?st"
    unfolding parsed_start_time_def nonempty_def using iso_0900 by simp
  have r: "wall ?st \<le> max_wall" "0 \<le> wall ?st + (- 30) * 60000000"
    by (simp_all add: max_wall_def)
  from log_time_negative_accepted [OF neg tsk st r, of "''e9''" None] show ?thesis
    by (simp add: iso_0830)
qed

section \<open>The order of listed tasks\<close>

lemmas list_tasks_defs =
  list_tasks_def sort_tasks_def incomparable_keys_def comparable_def due_key_def
  datetime_max_def naive_def priority_order_def order_key_def instant_def nonempty_def
  slice_to_def max_wall_def

text \<open>
  Claim C4 says that within one priority a task with an earlier due date is listed
  before one with a later due date, and a task without a due date after both. The sort
  is descending in both components of its key, and a missing due date counts as
  \<^verbatim>\<open>datetime.max\<close>: of three tasks of medium priority, the one without a due date is
  listed first, then the one due on 2024-12-31, then the one due on 2024-01-01. When
  the due date was given with the suffix \<^verbatim>\<open>Z\<close>, the comparison with
  \<^verbatim>\<open>datetime.max\<close> raises \<^verbatim>\<open>TypeError\<close>.
\<close>

theorem list_tasks_due_date_order:
  "list_tasks None None None None None 20 due_dates_example
     = (Inr (TasksFound [plain_task ''c'' ''Undated'',
                         due_task ''b'' ''Late'' ''2024-12-31T00:00:00'',
                         due_task ''a'' ''Early'' ''2024-01-01T00:00:00'']),
        due_dates_example)
   \<and> list_tasks None None None None None 20 aware_due_example
       = (Inl TypeError, aware_due_example)"
  by (simp add: list_tasks_defs due_dates_example_def aware_due_example_def due_task_def
        plain_task_def iso_defs Let_def)

section \<open>The limit of listed tasks\<close>

text \<open>
  Claim C8 says that a limit \<open>n \<le> 0\<close> yields an empty result. The slice
  \<^verbatim>\<open>tasks[:limit]\<close> is empty for 0, but for a negative limit it drops that many
  tasks from the end: with three tasks stored, the limit -1 lists the first two.
\<close>

theorem list_tasks_negative_limit:
  "list_tasks None None None None None (- 1) due_dates_example
     = (Inr (TasksFound [plain_task ''c'' ''Undated'',
                         due_task ''b'' ''Late'' ''2024-12-31T00:00:00'']),
        due_dates_example)
   \<and> list_tasks None None None None None 0 due_dates_example
       = (Inr NoTasksFound, due_dates_example)
   \<and> list_tasks None None None None None 1 due_dates_example
       = (Inr (TasksFound [plain_task ''c'' ''Undated'']), due_dates_example)"
  by (simp add: list_tasks_defs due_dates_example_def due_task_def plain_task_def iso_defs Let_def)

section \<open>An update with a date that does not parse\<close>

text \<open>
  Claim C7 says that an \<^verbatim>\<open>update_task\<close> call in which one field fails validation
  changes no field of the stored task. The date is parsed after \<open>title\<close>,
  \<open>description\<close>, \<open>priority\<close>, \<open>status\<close> and \<open>category\<close> were assigned: the call
  below reports the invalid date, and the stored task carries the new title and the
  new priority.
\<close>

theorem update_task_bad_date_partial:
  "fst (update_task fromisoformat_basic 50 ''t1'' (Some ''Renamed'') None (Some LOW) None None
          (Some ''not-a-date'') None None None None
          (run fromisoformat_basic running_example init_state))
     = Inr InvalidDateFormat
   \<and> map_option title
        (map_of (tasks_storage (run fromisoformat_basic running_example init_state)) ''t1'')
       = Some ''Write spec''
   \<and> map_option priority
        (map_of (tasks_storage (run fromisoformat_basic running_example init_state)) ''t1'')
       = Some HIGH
   \<and> map_option title
        (map_of (tasks_storage
           (snd (update_task fromisoformat_basic 50 ''t1'' (Some ''Renamed'') None (Some LOW) None
                   None (Some ''not-a-date'') None None None None
                   (run fromisoformat_basic running_example init_state)))) ''t1'')
       = Some ''Renamed''
   \<and> map_option priority
        (map_of (tasks_storage
           (snd (update_task fromisoformat_basic 50 ''t1'' (Some ''Renamed'') None (Some LOW) None
                   None (Some ''not-a-date'') None None None None
                   (run fromisoformat_basic running_example init_state)))) ''t1'')
       = Some LOW"
  by (simp add: running_example_state update_task_def iso_defs Let_def)

section \<open>The update timestamp\<close>

text \<open>
  Claim C10 says that every mutation of a stored task sets its \<open>updated_at\<close>.
  \<^verbatim>\<open>update_task\<close> does so, but \<^verbatim>\<open>stop_timer\<close> and \<^verbatim>\<open>log_time\<close> change
  \<open>actual_hours\<close> and leave \<open>updated_at\<close> as it was: the task of the scenario was
  created at clock reading 0, and still carries that reading after its timer was
  stopped at 5400000100 and after 45 minutes were logged at 7.
\<close>

theorem timers_keep_updated_at:
  "map_option (\<lambda>t. (actual_hours t, updated_at t))
     (map_of (tasks_storage (run fromisoformat_basic running_example init_state)) ''t1'')
     = Some (None, naive 0)
   \<and> map_option (\<lambda>t. (actual_hours t, updated_at t))
        (map_of (tasks_storage
           (snd (stop_timer 5400000100 None (Some ''t1'')
                   (run fromisoformat_basic running_example init_state)))) ''t1'')
       = Some (Some (3 / 2), naive 0)
   \<and> map_option (\<lambda>t. (actual_hours t, updated_at t))
        (map_of (tasks_storage
           (snd (log_time fromisoformat_basic ''e9'' 7 ''t1'' 45 None None
                   (run fromisoformat_basic running_example init_state)))) ''t1'')
       = Some (Some (3 / 4), naive 0)
   \<and> map_option (\<lambda>t. (actual_hours t, updated_at t))
        (map_of (tasks_storage
           (snd (update_task fromisoformat_basic 50 ''t1'' None None None None None None None
                   (Some (3 / 4)) None None
                   (run fromisoformat_basic running_example init_state)))) ''t1'')
       = Some (Some (3 / 4), naive 50)"
  by (simp add: running_example_state stop_timer_def stop_timer_entry_def log_time_def
        parsed_start_time_def update_task_def nonempty_def datetime_sub_def comparable_def
        instant_def naive_def whole_minutes_exact hours_of_def timedelta_minutes_def
        datetime_add_def max_wall_def Let_def)

end
